theory Spec2Isabelle
  imports Complex_Main
begin

section \<open>Stealth lead generator: scoring\<close>

text \<open>
  A shallow embedding of the campaign orchestrator of
  \<^verbatim>\<open>stealth_lead_generator.py\<close> and of the browser pool of
  \<^verbatim>\<open>neural_protocol_scraper_complete.py\<close>.

  Python floats are modelled as exact reals: the scores are only compared with
  decimal literals, multiplied by decimal weights and added. Decimal literals are
  written as fractions (\<open>0.9\<close> is \<open>9 / 10\<close>). Rounding of IEEE doubles is outside
  the model.
\<close>

subsection \<open>Configuration (\<^verbatim>\<open>StealthLeadGenerator.load_config\<close>)\<close>

text \<open>
  The configuration is a nested dictionary. The keys that the code reads by a
  literal name are record fields; the table \<^verbatim>\<open>stealth_mode_levels\<close>, which is
  read with a key that comes from the campaign, is a map, so that a missing key is a
  branch of the model.
\<close>

record stealth_params =
  delay_multiplier :: real
  batch_size :: int

record tier_thresholds =
  platinum :: real
  gold :: real
  silver :: real
  bronze :: real

record config =
  max_detection_risk :: real
  proxy_rotation_threshold :: real
  emergency_shutdown_threshold :: real
  stealth_mode_levels :: "int \<rightharpoonup> stealth_params"
  minimum_score_threshold :: real
  high_value_threshold :: real
  tier_thresholds :: tier_thresholds

definition default_stealth_mode_levels :: "int \<rightharpoonup> stealth_params" where
  "default_stealth_mode_levels =
     [1 \<mapsto> \<lparr>delay_multiplier = 1, batch_size = 5\<rparr>,
      2 \<mapsto> \<lparr>delay_multiplier = 3 / 2, batch_size = 4\<rparr>,
      3 \<mapsto> \<lparr>delay_multiplier = 2, batch_size = 3\<rparr>,
      4 \<mapsto> \<lparr>delay_multiplier = 3, batch_size = 2\<rparr>,
      5 \<mapsto> \<lparr>delay_multiplier = 5, batch_size = 1\<rparr>]"

definition default_tier_thresholds :: tier_thresholds where
  "default_tier_thresholds =
     \<lparr>platinum = 9 / 10, gold = 75 / 100, silver = 6 / 10, bronze = 4 / 10\<rparr>"

definition default_config :: config where
  "default_config =
     \<lparr>max_detection_risk = 3 / 10,
      proxy_rotation_threshold = 5 / 10,
      emergency_shutdown_threshold = 8 / 10,
      stealth_mode_levels = default_stealth_mode_levels,
      minimum_score_threshold = 6 / 10,
      high_value_threshold = 8 / 10,
      tier_thresholds = default_tier_thresholds\<rparr>"

subsection \<open>Analyses (\<^verbatim>\<open>NeuralProfileAnalysis\<close>)\<close>

text \<open>The fields of the analysis that the orchestrator reads.\<close>

record neural_profile_analysis =
  profile_id :: string
  lead_quality_score :: real
  investment_propensity_score :: real
  engagement_likelihood_score :: real
  conversion_probability_score :: real

subsection \<open>\<^verbatim>\<open>determine_lead_tier\<close> and \<^verbatim>\<open>calculate_priority_score\<close>\<close>

definition determine_lead_tier :: "config \<Rightarrow> real \<Rightarrow> string" where
  "determine_lead_tier cfg lead_score =
     (let thresholds = tier_thresholds cfg in
      if lead_score \<ge> platinum thresholds then ''platinum''
      else if lead_score \<ge> gold thresholds then ''gold''
      else if lead_score \<ge> silver thresholds then ''silver''
      else ''bronze'')"

text \<open>
  \<^verbatim>\<open>priority_factors\<close> is a dictionary literal with four entries;
  \<^verbatim>\<open>sum(priority_factors.values())\<close> adds them in insertion order, starting
  from \<open>0\<close>.
\<close>

definition priority_factors :: "neural_profile_analysis \<Rightarrow> (string \<times> real) list" where
  "priority_factors analysis =
     [(''lead_quality'', lead_quality_score analysis * (4 / 10)),
      (''conversion_probability'', conversion_probability_score analysis * (3 / 10)),
      (''engagement_likelihood'', engagement_likelihood_score analysis * (2 / 10)),
      (''investment_propensity'', investment_propensity_score analysis * (1 / 10))]"

definition calculate_priority_score :: "neural_profile_analysis \<Rightarrow> real" where
  "calculate_priority_score analysis =
     foldl (+) 0 (map snd (priority_factors analysis))"

section \<open>Stealth lead generator: campaigns\<close>

subsection \<open>Data (\<^verbatim>\<open>StealthCampaign\<close>, \<^verbatim>\<open>ScrapedProfile\<close>, \<^verbatim>\<open>LeadIntelligence\<close>)\<close>

text \<open>
  The fields that the orchestration reads or writes. Time stamps
  (\<^verbatim>\<open>created_at\<close>, \<^verbatim>\<open>started_at\<close>, \<^verbatim>\<open>completed_at\<close>) are left out: nothing
  branches on them.
\<close>

record stealth_campaign =
  campaign_id :: string
  stealth_level :: int
  extraction_targets :: "string list"
  lead_qualification_threshold :: real
  status :: string
  total_targets :: int
  processed_targets :: int
  successful_extractions :: int
  qualified_leads :: int
  high_value_leads :: int
  qualified_leads_list :: "string list"

record scraped_profile =
  scraped_id :: string
  full_name :: string

record lead_intelligence =
  lead_id :: string
  neural_analysis :: neural_profile_analysis
  lead_tier :: string
  priority_score :: real
  qualification_status :: string

type_synonym metrics = "(string \<times> real) list"

record campaign_result =
  result_campaign_id :: string
  result_status :: string
  result_metrics :: metrics
  result_qualified_leads :: nat
  result_high_value_leads :: int
  success_rate :: real

datatype error = ValueError | KeyError | IndexError | ZeroDivisionError | Exception

subsection \<open>Collaborators\<close>

text \<open>
  The scraper, the analyzer and the methods of \<^verbatim>\<open>StealthLeadGenerator\<close> that are
  not part of the sources (\<^verbatim>\<open>check_detection_risk\<close>, \<^verbatim>\<open>emergency_pause\<close>,
  \<^verbatim>\<open>calculate_campaign_metrics\<close>, \<^verbatim>\<open>save_stealth_campaign\<close>,
  \<^verbatim>\<open>analyze_competitors\<close>, \<^verbatim>\<open>assess_opportunity\<close>,
  \<^verbatim>\<open>save_lead_intelligence\<close>, \<^verbatim>\<open>integrate_with_existing_system\<close>) are parameters
  of the model. Each may raise (\<open>Inl\<close>, or \<open>Some\<close> error for a procedure).

  One run of the extraction loop asks for the detection risk once per batch and calls
  the scraper once per target, so \<open>check_detection_risk\<close> is indexed by the position
  at which the batch starts and \<open>neural_scraper_extract\<close> by the position of the
  target in \<^verbatim>\<open>extraction_targets\<close>: the answers may differ from call to call.
\<close>

datatype extract_outcome = Raises | Returns "scraped_profile option"

record env =
  check_detection_risk :: "nat \<Rightarrow> error + real"
  emergency_pause :: "stealth_campaign \<Rightarrow> error + stealth_campaign"
  neural_scraper_extract :: "nat \<Rightarrow> extract_outcome"
  analyze_profile_neural :: "scraped_profile \<Rightarrow> error + neural_profile_analysis"
  analyze_competitors :: "neural_profile_analysis \<Rightarrow> error option"
  assess_opportunity :: "neural_profile_analysis \<Rightarrow> error option"
  save_lead_intelligence :: "lead_intelligence \<Rightarrow> error option"
  existing_system_available :: bool
  integrate_with_existing_system :: "stealth_campaign \<Rightarrow> lead_intelligence list \<Rightarrow> error option"
  calculate_campaign_metrics :: "stealth_campaign \<Rightarrow> error + metrics"
  save_stealth_campaign :: "stealth_campaign \<Rightarrow> error option"

subsection \<open>State\<close>

text \<open>
  The messages that \<^verbatim>\<open>execute_neural_extraction\<close> sends to the logger, in order.
  The random delays are not part of the events.
\<close>

datatype log_event =
    LogBatch nat nat
  | LogHighRisk
  | LogDelay
  | LogExtracted string
  | LogFailed string
  | LogError string
  | LogBatchPause
  | LogExtractionDone nat
  | LogExtractionError

text \<open>
  The state of one run of the extraction. \<open>after_batch\<close> is an observation: the
  campaign as it is each time the inner loop over a batch has finished.
\<close>

record extraction_state =
  campaign :: stealth_campaign
  extracted_profiles :: "scraped_profile list"
  logged :: "log_event list"
  after_batch :: "stealth_campaign list"

record generator =
  gen_config :: config
  active_campaigns :: "string \<rightharpoonup> stealth_campaign"
  gen_log :: "log_event list"

subsection \<open>\<^verbatim>\<open>create_stealth_campaign\<close>\<close>

text \<open>
  \<^verbatim>\<open>campaign_config\<close> is a dictionary read with \<^verbatim>\<open>get\<close> and a default. The
  identifier is built from the clock and a UUID; it is a parameter here.
\<close>

record campaign_config =
  cfg_stealth_level :: "int option"
  cfg_targets :: "string list option"
  cfg_qualification_threshold :: "real option"

definition get_default :: "'a option \<Rightarrow> 'a \<Rightarrow> 'a" where
  "get_default v d = (case v of None \<Rightarrow> d | Some x \<Rightarrow> x)"

definition new_campaign :: "string \<Rightarrow> campaign_config \<Rightarrow> stealth_campaign" where
  "new_campaign new_id campaign_config =
     \<lparr>campaign_id = new_id,
      stealth_level = get_default (cfg_stealth_level campaign_config) 3,
      extraction_targets = get_default (cfg_targets campaign_config) [],
      lead_qualification_threshold =
        get_default (cfg_qualification_threshold campaign_config) (6 / 10),
      status = ''planning'',
      total_targets = int (length (get_default (cfg_targets campaign_config) [])),
      processed_targets = 0,
      successful_extractions = 0,
      qualified_leads = 0,
      high_value_leads = 0,
      qualified_leads_list = []\<rparr>"

definition create_stealth_campaign ::
  "env \<Rightarrow> generator \<Rightarrow> string \<Rightarrow> campaign_config \<Rightarrow> generator \<times> (error + stealth_campaign)" where
  "create_stealth_campaign e g new_id campaign_config =
     (let c = new_campaign new_id campaign_config in
      case save_stealth_campaign e c of
        Some err \<Rightarrow> (g, Inl err)
      | None \<Rightarrow> (g\<lparr>active_campaigns := (active_campaigns g)(new_id \<mapsto> c)\<rparr>, Inr c))"

subsection \<open>\<^verbatim>\<open>execute_neural_extraction\<close>\<close>

text \<open>
  The body of the inner loop for one target, at position \<open>j\<close> of the target list.
  An exception of the scraper is caught, logged, and the loop goes on
  (\<^verbatim>\<open>continue\<close>): \<^verbatim>\<open>processed_targets\<close> is not incremented then.
\<close>

definition say :: "log_event \<Rightarrow> extraction_state \<Rightarrow> extraction_state" where
  "say ev st = st\<lparr>logged := logged st @ [ev]\<rparr>"

definition extract_target :: "env \<Rightarrow> extraction_state \<Rightarrow> nat \<times> string \<Rightarrow> extraction_state" where
  "extract_target e st jt =
     (case jt of (j, target_url) \<Rightarrow>
        (let st1 = say LogDelay st; c = campaign st1 in
         case neural_scraper_extract e j of
           Raises \<Rightarrow> say (LogError target_url) st1
         | Returns None \<Rightarrow>
             (say (LogFailed target_url) st1)
               \<lparr>campaign := c\<lparr>processed_targets := processed_targets c + 1\<rparr>\<rparr>
         | Returns (Some profile) \<Rightarrow>
             (say (LogExtracted (full_name profile)) st1)
               \<lparr>campaign := c\<lparr>successful_extractions := successful_extractions c + 1,
                               processed_targets := processed_targets c + 1\<rparr>,
                extracted_profiles := extracted_profiles st1 @ [profile]\<rparr>))"

definition process_batch :: "env \<Rightarrow> extraction_state \<Rightarrow> nat \<Rightarrow> string list \<Rightarrow> extraction_state" where
  "process_batch e st i batch = foldl (extract_target e) st (zip [i ..< i + length batch] batch)"

text \<open>
  The loop \<^verbatim>\<open>for i in range(0, len(targets), batch_size)\<close> for a positive step
  \<open>bs\<close>, from position \<open>i\<close>. The second component of the result is the exception
  that left the loop, if any; the campaign keeps what was written to it before.
\<close>

function extraction_loop ::
  "env \<Rightarrow> nat \<Rightarrow> string list \<Rightarrow> nat \<Rightarrow> extraction_state \<Rightarrow> extraction_state \<times> error option" where
  "extraction_loop e bs targets i st =
     (if bs = 0 \<or> length targets \<le> i then (st, None)
      else
        (let batch = take bs (drop i targets);
             st1 = say (LogBatch (i div bs + 1) (length batch)) st in
         case check_detection_risk e i of
           Inl err \<Rightarrow> (st1, Some err)
         | Inr risk \<Rightarrow>
             if risk > 7 / 10 then
               (let st2 = say LogHighRisk st1 in
                case emergency_pause e (campaign st2) of
                  Inl err \<Rightarrow> (st2, Some err)
                | Inr c \<Rightarrow> (st2\<lparr>campaign := c\<rparr>, None))
             else
               (let st2 = process_batch e st1 i batch;
                    st3 = st2\<lparr>after_batch := after_batch st2 @ [campaign st2]\<rparr>;
                    st4 = (if i + bs < length targets then say LogBatchPause st3 else st3)
                in extraction_loop e bs targets (i + bs) st4)))"
  by pat_completeness auto
termination
  by (relation "measure (\<lambda>(e, bs, targets, i, st). length targets - i)") auto

declare extraction_loop.simps [simp del]

text \<open>
  \<^verbatim>\<open>range\<close> raises \<^verbatim>\<open>ValueError\<close> for a step of zero and is empty for a
  negative step. Any exception that leaves the loop is caught by the outer handler,
  which logs it and returns the empty list.
\<close>

definition execute_neural_extraction ::
  "env \<Rightarrow> stealth_campaign \<Rightarrow> stealth_params \<Rightarrow> extraction_state" where
  "execute_neural_extraction e c stealth_params =
     (let st0 = \<lparr>campaign = c, extracted_profiles = [], logged = [], after_batch = []\<rparr>;
          r = (if batch_size stealth_params = 0 then (st0, Some ValueError)
               else if batch_size stealth_params < 0 then (st0, None)
               else extraction_loop e (nat (batch_size stealth_params)) (extraction_targets c) 0 st0)
      in case snd r of
           None \<Rightarrow> say (LogExtractionDone (length (extracted_profiles (fst r)))) (fst r)
         | Some err \<Rightarrow> (say LogExtractionError (fst r))\<lparr>extracted_profiles := []\<rparr>)"

subsection \<open>\<^verbatim>\<open>execute_neural_analysis\<close>, \<^verbatim>\<open>execute_lead_qualification\<close>, \<^verbatim>\<open>generate_lead_intelligence\<close>\<close>

text \<open>A profile whose analysis raises is skipped.\<close>

definition execute_neural_analysis :: "env \<Rightarrow> scraped_profile list \<Rightarrow> neural_profile_analysis list" where
  "execute_neural_analysis e profiles =
     foldl (\<lambda>analyses profile.
              case analyze_profile_neural e profile of
                Inl err \<Rightarrow> analyses
              | Inr analysis \<Rightarrow> analyses @ [analysis]) [] profiles"

definition qualify_one ::
  "config \<Rightarrow> stealth_campaign \<times> neural_profile_analysis list \<Rightarrow> neural_profile_analysis
     \<Rightarrow> stealth_campaign \<times> neural_profile_analysis list" where
  "qualify_one cfg cq analysis =
     (case cq of (c, qualified) \<Rightarrow>
        if lead_quality_score analysis \<ge> lead_qualification_threshold c then
          (let c1 = c\<lparr>qualified_leads := qualified_leads c + 1\<rparr>;
               c2 = (if lead_quality_score analysis \<ge> high_value_threshold cfg
                     then c1\<lparr>high_value_leads := high_value_leads c1 + 1\<rparr> else c1)
           in (c2, qualified @ [analysis]))
        else (c, qualified))"

definition execute_lead_qualification ::
  "config \<Rightarrow> stealth_campaign \<Rightarrow> neural_profile_analysis list
     \<Rightarrow> stealth_campaign \<times> neural_profile_analysis list" where
  "execute_lead_qualification cfg c analyses = foldl (qualify_one cfg) (c, []) analyses"

text \<open>
  \<^verbatim>\<open>generate_contact_strategy\<close> catches its own exceptions; the other helpers of
  \<^verbatim>\<open>create_lead_intelligence\<close> may raise, and the exception is raised again.
\<close>

definition create_lead_intelligence ::
  "env \<Rightarrow> config \<Rightarrow> neural_profile_analysis \<Rightarrow> stealth_campaign \<Rightarrow> error + lead_intelligence" where
  "create_lead_intelligence e cfg analysis c =
     (let intelligence =
            \<lparr>lead_id = ''LEAD_'' @ profile_id analysis @ ''_'' @ campaign_id c,
             neural_analysis = analysis,
             lead_tier = determine_lead_tier cfg (lead_quality_score analysis),
             priority_score = calculate_priority_score analysis,
             qualification_status = ''qualified''\<rparr>
      in case analyze_competitors e analysis of
           Some err \<Rightarrow> Inl err
         | None \<Rightarrow>
            (case assess_opportunity e analysis of
               Some err \<Rightarrow> Inl err
             | None \<Rightarrow>
                (case save_lead_intelligence e intelligence of
                   Some err \<Rightarrow> Inl err
                 | None \<Rightarrow> Inr intelligence)))"

definition generate_lead_intelligence ::
  "env \<Rightarrow> config \<Rightarrow> stealth_campaign \<Rightarrow> neural_profile_analysis list \<Rightarrow> lead_intelligence list" where
  "generate_lead_intelligence e cfg c qualified =
     foldl (\<lambda>reports analysis.
              case create_lead_intelligence e cfg analysis c of
                Inl err \<Rightarrow> reports
              | Inr intelligence \<Rightarrow> reports @ [intelligence]) [] qualified"

subsection \<open>\<^verbatim>\<open>execute_stealth_campaign\<close>\<close>

definition true_div :: "int \<Rightarrow> int \<Rightarrow> error + real" where
  "true_div a b = (if b = 0 then Inl ZeroDivisionError else Inr (real_of_int a / real_of_int b))"

text \<open>
  The campaign is an object shared with \<^verbatim>\<open>active_campaigns\<close>: what a run has
  written to it stays written when an exception ends the run. The handler then sets
  the status to \<^verbatim>\<open>failed\<close> and raises again.
\<close>

definition campaign_failed ::
  "generator \<Rightarrow> string \<Rightarrow> stealth_campaign \<Rightarrow> error \<Rightarrow> generator \<times> (error + campaign_result)" where
  "campaign_failed g cid c err =
     (g\<lparr>active_campaigns := (active_campaigns g)(cid \<mapsto> c\<lparr>status := ''failed''\<rparr>)\<rparr>, Inl err)"

definition execute_stealth_campaign ::
  "env \<Rightarrow> generator \<Rightarrow> string \<Rightarrow> generator \<times> (error + campaign_result)" where
  "execute_stealth_campaign e g cid =
     (case active_campaigns g cid of
        None \<Rightarrow> (g, Inl ValueError)
      | Some c0 \<Rightarrow>
         (let c1 = c0\<lparr>status := ''active''\<rparr> in
          case stealth_mode_levels (gen_config g) (stealth_level c1) of
            None \<Rightarrow> campaign_failed g cid c1 KeyError
          | Some stealth_params \<Rightarrow>
             (let st = execute_neural_extraction e c1 stealth_params;
                  g1 = g\<lparr>gen_log := gen_log g @ logged st\<rparr>;
                  analysis_results = execute_neural_analysis e (extracted_profiles st);
                  (c2, qualification_results) =
                     execute_lead_qualification (gen_config g) (campaign st) analysis_results;
                  intelligence_results =
                     generate_lead_intelligence e (gen_config g) c2 qualification_results
              in case (if existing_system_available e
                       then integrate_with_existing_system e c2 intelligence_results
                       else None) of
                   Some err \<Rightarrow> campaign_failed g1 cid c2 err
                 | None \<Rightarrow>
                    (let c3 = c2\<lparr>status := ''completed''\<rparr> in
                     case calculate_campaign_metrics e c3 of
                       Inl err \<Rightarrow> campaign_failed g1 cid c3 err
                     | Inr final_metrics \<Rightarrow>
                        (case save_stealth_campaign e c3 of
                           Some err \<Rightarrow> campaign_failed g1 cid c3 err
                         | None \<Rightarrow>
                            (case (if total_targets c3 > 0
                                   then true_div (successful_extractions c3) (total_targets c3)
                                   else Inr 0) of
                               Inl err \<Rightarrow> campaign_failed g1 cid c3 err
                             | Inr rate \<Rightarrow>
                                (g1\<lparr>active_campaigns := (active_campaigns g1)(cid \<mapsto> c3)\<rparr>,
                                 Inr \<lparr>result_campaign_id = cid,
                                      result_status = ''completed'',
                                      result_metrics = final_metrics,
                                      result_qualified_leads = length (qualified_leads_list c3),
                                      result_high_value_leads = high_value_leads c3,
                                      success_rate = rate\<rparr>)))))))"

section \<open>Neural protocol scraper: browser pool\<close>

subsection \<open>Data (\<^verbatim>\<open>ProxyConfig\<close>, the entries of \<^verbatim>\<open>browser_pool\<close>)\<close>

text \<open>
  Of \<^verbatim>\<open>ProxyConfig\<close> the fields that identify a proxy and those the claims are
  about. An entry of \<^verbatim>\<open>browser_pool\<close> is a dictionary; the browser is a handle.
\<close>

record proxy_config =
  proxy_url :: string
  is_active :: bool
  concurrent_sessions :: int

record browser_info =
  browser :: nat
  in_use :: bool
  created_at :: nat
  session_count :: int

record scraper_config =
  max_concurrent_sessions :: int
  rotation_strategy :: string

definition default_scraper_config :: scraper_config where
  "default_scraper_config =
     \<lparr>max_concurrent_sessions = 5, rotation_strategy = ''round_robin''\<rparr>"

text \<open>
  The entries of the pool are shared objects: \<^verbatim>\<open>get_available_browser\<close> hands out
  the dictionary that is in the pool, and \<^verbatim>\<open>release_browser\<close> writes to the
  dictionary it is given. So the state has a store of dictionaries, and the pool is
  a list of references into it. \<open>next_ref\<close> is the reference of the next dictionary
  to be created. \<open>tasks\<close> are the coroutines handed to \<^verbatim>\<open>asyncio.create_task\<close>
  that have not run yet.
\<close>

datatype task = CreateReplacementBrowser

record scraper =
  scraper_config :: scraper_config
  proxy_pool :: "proxy_config list"
  user_agents :: "string list"
  browser_pool :: "nat list"
  store :: "nat \<Rightarrow> browser_info"
  next_ref :: nat
  tasks :: "task list"

text \<open>
  What one call takes from outside: the two draws of \<^verbatim>\<open>random.choice\<close>, the
  browser that the web driver returns for a set of options (or its exception), the
  clock, whether \<^verbatim>\<open>quit\<close> of a browser raises, whether an event loop is
  running when a task is created, and what the page extraction yields in a browser
  for a URL.
\<close>

record browser_options =
  opt_user_agent :: string
  opt_proxy :: "proxy_config option"

datatype page_outcome = PageRaises | PageData "scraped_profile option"

record world =
  user_agent_draw :: nat
  proxy_draw :: nat
  chrome :: "browser_options \<Rightarrow> error + nat"
  now :: nat
  quit :: "nat \<Rightarrow> error option"
  event_loop_running :: bool
  page :: "nat \<Rightarrow> string \<Rightarrow> page_outcome"

subsection \<open>\<^verbatim>\<open>create_stealth_browser\<close>\<close>

text \<open>
  \<^verbatim>\<open>random.choice(seq)\<close> raises \<^verbatim>\<open>IndexError\<close> on an empty sequence and
  returns the element at a random index below the length otherwise; \<open>r\<close> is the
  draw.
\<close>

definition random_choice :: "nat \<Rightarrow> 'a list \<Rightarrow> error + 'a" where
  "random_choice r xs = (if xs = [] then Inl IndexError else Inr (xs ! (r mod length xs)))"

text \<open>
  The options that \<^verbatim>\<open>create_stealth_browser\<close> builds. The proxy is chosen among
  the proxies with \<^verbatim>\<open>is_active\<close>, when \<^verbatim>\<open>proxy_pool\<close> is not empty; the option
  keeps the chosen \<^verbatim>\<open>ProxyConfig\<close>, from which the source formats the argument.
\<close>

definition stealth_options :: "world \<Rightarrow> scraper \<Rightarrow> error + browser_options" where
  "stealth_options w sc =
     (case random_choice (user_agent_draw w) (user_agents sc) of
        Inl err \<Rightarrow> Inl err
      | Inr user_agent \<Rightarrow>
          if proxy_pool sc \<noteq> [] then
            (case random_choice (proxy_draw w) (filter is_active (proxy_pool sc)) of
               Inl err \<Rightarrow> Inl err
             | Inr proxy \<Rightarrow> Inr \<lparr>opt_user_agent = user_agent, opt_proxy = Some proxy\<rparr>)
          else Inr \<lparr>opt_user_agent = user_agent, opt_proxy = None\<rparr>)"

text \<open>Every exception is caught and \<^verbatim>\<open>None\<close> returned.\<close>

definition create_stealth_browser :: "world \<Rightarrow> scraper \<Rightarrow> nat option" where
  "create_stealth_browser w sc =
     (case stealth_options w sc of
        Inl err \<Rightarrow> None
      | Inr options \<Rightarrow>
          (case chrome w options of
             Inl err \<Rightarrow> None
           | Inr b \<Rightarrow> Some b))"

subsection \<open>\<^verbatim>\<open>get_available_browser\<close>, \<^verbatim>\<open>release_browser\<close>, \<^verbatim>\<open>create_replacement_browser\<close>\<close>

definition get_available_browser :: "world \<Rightarrow> scraper \<Rightarrow> scraper \<times> nat option" where
  "get_available_browser w sc =
     (case find (\<lambda>r. \<not> in_use (store sc r)) (browser_pool sc) of
        Some r \<Rightarrow>
          (sc\<lparr>store := (store sc)
                  (r := (store sc r)\<lparr>in_use := True,
                                     session_count := session_count (store sc r) + 1\<rparr>)\<rparr>,
           Some r)
      | None \<Rightarrow>
          (case create_stealth_browser w sc of
             Some b \<Rightarrow>
               (sc\<lparr>store := (store sc)
                       (next_ref sc := \<lparr>browser = b, in_use = True, created_at = now w,
                                        session_count = 1\<rparr>),
                    browser_pool := browser_pool sc @ [next_ref sc],
                    next_ref := next_ref sc + 1\<rparr>,
                Some (next_ref sc))
           | None \<Rightarrow> (sc, None)))"

text \<open>
  \<^verbatim>\<open>list.remove\<close> removes the first entry that is equal to the dictionary, and
  raises \<^verbatim>\<open>ValueError\<close> when there is none. \<^verbatim>\<open>asyncio.create_task\<close> raises
  \<^verbatim>\<open>RuntimeError\<close> when no event loop is running. An exception of \<^verbatim>\<open>quit\<close>,
  of \<^verbatim>\<open>remove\<close> or of \<^verbatim>\<open>create_task\<close> is caught and logged, and what
  follows it in the \<^verbatim>\<open>try\<close> block is skipped: after a failed
  \<^verbatim>\<open>create_task\<close> the entry has already been removed.
\<close>

definition release_browser :: "world \<Rightarrow> scraper \<Rightarrow> nat \<Rightarrow> scraper" where
  "release_browser w sc r =
     (let sc1 = sc\<lparr>store := (store sc)(r := (store sc r)\<lparr>in_use := False\<rparr>)\<rparr> in
      if session_count (store sc1 r) > 50 then
        (case quit w (browser (store sc1 r)) of
           Some err \<Rightarrow> sc1
         | None \<Rightarrow>
            (case find (\<lambda>a. store sc1 a = store sc1 r) (browser_pool sc1) of
               None \<Rightarrow> sc1
             | Some a \<Rightarrow>
                 (let sc2 = sc1\<lparr>browser_pool := remove1 a (browser_pool sc1)\<rparr> in
                  if event_loop_running w
                  then sc2\<lparr>tasks := tasks sc2 @ [CreateReplacementBrowser]\<rparr>
                  else sc2)))
      else sc1)"

definition create_replacement_browser :: "world \<Rightarrow> scraper \<Rightarrow> scraper" where
  "create_replacement_browser w sc =
     (case create_stealth_browser w sc of
        Some b \<Rightarrow>
          sc\<lparr>store := (store sc)
                 (next_ref sc := \<lparr>browser = b, in_use = False, created_at = now w,
                                  session_count = 0\<rparr>),
              browser_pool := browser_pool sc @ [next_ref sc],
              next_ref := next_ref sc + 1\<rparr>
      | None \<Rightarrow> sc)"

subsection \<open>\<^verbatim>\<open>extract_linkedin_profile\<close>\<close>

text \<open>
  The navigation and the extraction in the leased browser are \<open>page\<close>. An exception
  there, and a page without data (the log line then fails on \<^verbatim>\<open>None\<close>), both end
  in the handler, which returns \<^verbatim>\<open>None\<close>. The \<^verbatim>\<open>finally\<close> block releases the
  browser on every path.
\<close>

definition extract_linkedin_profile ::
  "world \<Rightarrow> scraper \<Rightarrow> string \<Rightarrow> scraper \<times> scraped_profile option" where
  "extract_linkedin_profile w sc profile_url =
     (case get_available_browser w sc of
        (sc1, None) \<Rightarrow> (sc1, None)
      | (sc1, Some r) \<Rightarrow>
          (let result =
                 (case page w (browser (store sc1 r)) profile_url of
                    PageRaises \<Rightarrow> None
                  | PageData None \<Rightarrow> None
                  | PageData (Some profile_data) \<Rightarrow> Some profile_data)
           in (release_browser w sc1 r, result)))"

section \<open>Predicates and examples\<close>

text \<open>
  The counter invariant of a campaign, and what the invariant needs of
  \<^verbatim>\<open>emergency_pause\<close>: that it leaves the counters alone.
\<close>

definition counters_ok :: "stealth_campaign \<Rightarrow> bool" where
  "counters_ok c = (processed_targets c \<le> total_targets c \<and> qualified_leads c \<le> successful_extractions c)"

definition pause_keeps_counters :: "env \<Rightarrow> bool" where
  "pause_keeps_counters e =
     (\<forall>c c'. emergency_pause e c = Inr c' \<longrightarrow>
        total_targets c' = total_targets c \<and> processed_targets c' = processed_targets c
        \<and> successful_extractions c' = successful_extractions c \<and> qualified_leads c' = qualified_leads c)"

definition loop_post :: "extraction_state \<Rightarrow> extraction_state \<Rightarrow> bool" where
  "loop_post st st' =
     (processed_targets (campaign st') \<le> total_targets (campaign st')
      \<and> total_targets (campaign st') = total_targets (campaign st)
      \<and> qualified_leads (campaign st') = qualified_leads (campaign st)
      \<and> (\<forall>s \<in> set (after_batch st'). counters_ok s)
      \<and> successful_extractions (campaign st') - int (length (extracted_profiles st'))
           = successful_extractions (campaign st) - int (length (extracted_profiles st))
      \<and> length (extracted_profiles st) \<le> length (extracted_profiles st'))"

definition example_env :: "real \<Rightarrow> env" where
  "example_env risk =
     \<lparr>check_detection_risk = (\<lambda>i. Inr risk),
      emergency_pause = (\<lambda>c. Inr (c\<lparr>status := ''paused''\<rparr>)),
      neural_scraper_extract = (\<lambda>j. Returns (Some \<lparr>scraped_id = ''p'', full_name = ''Ada''\<rparr>)),
      analyze_profile_neural =
        (\<lambda>p. Inr \<lparr>profile_id = scraped_id p, lead_quality_score = 8 / 10,
                   investment_propensity_score = 4 / 10, engagement_likelihood_score = 5 / 10,
                   conversion_probability_score = 6 / 10\<rparr>),
      analyze_competitors = (\<lambda>a. None),
      assess_opportunity = (\<lambda>a. None),
      save_lead_intelligence = (\<lambda>r. None),
      existing_system_available = False,
      integrate_with_existing_system = (\<lambda>c rs. None),
      calculate_campaign_metrics = (\<lambda>c. Inr []),
      save_stealth_campaign = (\<lambda>c. None)\<rparr>"

definition example_campaign :: stealth_campaign where
  "example_campaign =
     new_campaign ''c1'' \<lparr>cfg_stealth_level = None, cfg_targets = Some [''u1''],
                           cfg_qualification_threshold = None\<rparr>"

definition example_generator :: "stealth_campaign \<Rightarrow> generator" where
  "example_generator c =
     \<lparr>gen_config = default_config, active_campaigns = [''c1'' \<mapsto> c], gen_log = []\<rparr>"

text \<open>
  The collaborators of the last steps of \<^verbatim>\<open>execute_stealth_campaign\<close> do not
  raise.
\<close>

definition finalisation_succeeds :: "env \<Rightarrow> bool" where
  "finalisation_succeeds e =
     ((\<forall>c rs. existing_system_available e \<longrightarrow> integrate_with_existing_system e c rs = None)
      \<and> (\<forall>c. case calculate_campaign_metrics e c of Inl err \<Rightarrow> False | Inr m \<Rightarrow> True)
      \<and> (\<forall>c. save_stealth_campaign e c = None))"

text \<open>
  What the inner loop logs for a target, and the profile it appends, as the
  scraper's answer for that target decides.
\<close>

definition outcome_event :: "env \<Rightarrow> nat \<times> string \<Rightarrow> log_event" where
  "outcome_event e jt =
     (case neural_scraper_extract e (fst jt) of
        Raises \<Rightarrow> LogError (snd jt)
      | Returns None \<Rightarrow> LogFailed (snd jt)
      | Returns (Some profile) \<Rightarrow> LogExtracted (full_name profile))"

definition outcome_profile :: "env \<Rightarrow> nat \<Rightarrow> scraped_profile list" where
  "outcome_profile e j =
     (case neural_scraper_extract e j of
        Raises \<Rightarrow> []
      | Returns None \<Rightarrow> []
      | Returns (Some profile) \<Rightarrow> [profile])"

text \<open>
  Every risk check of a run succeeds and stays at or below the 0.7 of the extraction
  loop.
\<close>

definition risk_stays_low :: "env \<Rightarrow> bool" where
  "risk_stays_low e =
     (\<forall>i. case check_detection_risk e i of Inl err \<Rightarrow> False | Inr risk \<Rightarrow> risk \<le> 7 / 10)"

text \<open>
  A run in which the scraper raises on the second target and returns nothing for the
  third.
\<close>

definition example_env_failing :: env where
  "example_env_failing =
     (example_env 0)
       \<lparr>neural_scraper_extract :=
          (\<lambda>j. if j = 1 then Raises
                else if j = 2 then Returns None
                else Returns (Some \<lparr>scraped_id = ''p'', full_name = ''Ada''\<rparr>))\<rparr>"

definition example_campaign_four :: stealth_campaign where
  "example_campaign_four =
     new_campaign ''c4'' \<lparr>cfg_stealth_level = None, cfg_targets = Some [''u0'', ''u1'', ''u2'', ''u3''],
                           cfg_qualification_threshold = None\<rparr>"

text \<open>
  A scraper with five browsers, all in use or all free, each used \<open>n\<close> times, and
  three proxies: one active with five sessions, one active with none, one inactive.
\<close>

definition example_scraper :: "bool \<Rightarrow> int \<Rightarrow> scraper" where
  "example_scraper busy n =
     \<lparr>scraper_config = default_scraper_config,
      proxy_pool =
        [\<lparr>proxy_url = ''http://residential1.proxy.com:8080'', is_active = True, concurrent_sessions = 5\<rparr>,
         \<lparr>proxy_url = ''http://residential2.proxy.com:8080'', is_active = True, concurrent_sessions = 0\<rparr>,
         \<lparr>proxy_url = ''http://datacenter1.proxy.com:3128'', is_active = False, concurrent_sessions = 0\<rparr>],
      user_agents = [''Mozilla/5.0''],
      browser_pool = [0, 1, 2, 3, 4],
      store = (\<lambda>r. \<lparr>browser = r, in_use = busy, created_at = 0, session_count = n\<rparr>),
      next_ref = 5,
      tasks = []\<rparr>"

definition example_world :: "nat \<Rightarrow> error + nat \<Rightarrow> world" where
  "example_world d launched =
     \<lparr>user_agent_draw = 0,
      proxy_draw = d,
      chrome = (\<lambda>options. launched),
      now = 7,
      quit = (\<lambda>b. None),
      event_loop_running = True,
      page = (\<lambda>b url. PageData (Some \<lparr>scraped_id = ''p'', full_name = ''Ada''\<rparr>))\<rparr>"

text \<open>The same world with a browser whose \<^verbatim>\<open>quit\<close> raises, and with no event loop.\<close>

definition example_world_quit_fails :: world where
  "example_world_quit_fails = (example_world 0 (Inr 100))\<lparr>quit := (\<lambda>b. Some Exception)\<rparr>"

definition example_world_no_loop :: world where
  "example_world_no_loop = (example_world 0 (Inr 100))\<lparr>event_loop_running := False\<rparr>"

section \<open>Properties\<close>

subsection \<open>Scoring\<close>

text \<open>
  Claim C6. With the tier thresholds of the default configuration, the tier is a
  function of the lead quality score alone, with the bands: platinum from 0.9,
  gold from 0.75 and below 0.9, silver from 0.6 and below 0.75, bronze below 0.6.
  In particular 0.92 is platinum, 0.80 gold, 0.65 silver and 0.10 bronze.
\<close>

theorem determine_lead_tier_bands:
  "determine_lead_tier default_config s =
     (if s \<ge> 9 / 10 then ''platinum''
      else if 75 / 100 \<le> s \<and> s < 9 / 10 then ''gold''
      else if 6 / 10 \<le> s \<and> s < 75 / 100 then ''silver''
      else ''bronze'')
   \<and> determine_lead_tier default_config (92 / 100) = ''platinum''
   \<and> determine_lead_tier default_config (80 / 100) = ''gold''
   \<and> determine_lead_tier default_config (65 / 100) = ''silver''
   \<and> determine_lead_tier default_config (10 / 100) = ''bronze''"
  by (simp add: determine_lead_tier_def default_config_def default_tier_thresholds_def)

text \<open>
  Claim C7. The priority score of every analysis is the weighted sum
  quality * 0.4 + conversion * 0.3 + engagement * 0.2 + propensity * 0.1; for
  quality 0.8, conversion 0.6, engagement 0.5 and propensity 0.4 it is 0.64.
\<close>

theorem calculate_priority_score_weighted_sum:
  "calculate_priority_score a =
     lead_quality_score a * (4 / 10) + conversion_probability_score a * (3 / 10)
       + engagement_likelihood_score a * (2 / 10) + investment_propensity_score a * (1 / 10)
   \<and> calculate_priority_score
        \<lparr>profile_id = pid, lead_quality_score = 8 / 10,
         investment_propensity_score = 4 / 10, engagement_likelihood_score = 5 / 10,
         conversion_probability_score = 6 / 10\<rparr> = 64 / 100"
  by (simp add: calculate_priority_score_def priority_factors_def)

subsection \<open>Campaign counters\<close>

lemma say_simps [simp]:
  "campaign (say ev st) = campaign st"
  "extracted_profiles (say ev st) = extracted_profiles st"
  "after_batch (say ev st) = after_batch st"
  "logged (say ev st) = logged st @ [ev]"
  by (simp_all add: say_def)

lemma extract_target_counters:
  "total_targets (campaign (extract_target e st jt)) = total_targets (campaign st)
   \<and> qualified_leads (campaign (extract_target e st jt)) = qualified_leads (campaign st)
   \<and> after_batch (extract_target e st jt) = after_batch st
   \<and> processed_targets (campaign st) \<le> processed_targets (campaign (extract_target e st jt))
   \<and> processed_targets (campaign (extract_target e st jt)) \<le> processed_targets (campaign st) + 1
   \<and> successful_extractions (campaign (extract_target e st jt)) - int (length (extracted_profiles (extract_target e st jt)))
       = successful_extractions (campaign st) - int (length (extracted_profiles st))
   \<and> length (extracted_profiles st) \<le> length (extracted_profiles (extract_target e st jt))"
  by (cases jt) (simp add: extract_target_def Let_def split: extract_outcome.split option.split)

lemma foldl_extract_target_counters:
  "total_targets (campaign (foldl (extract_target e) st xs)) = total_targets (campaign st)
   \<and> qualified_leads (campaign (foldl (extract_target e) st xs)) = qualified_leads (campaign st)
   \<and> after_batch (foldl (extract_target e) st xs) = after_batch st
   \<and> processed_targets (campaign st) \<le> processed_targets (campaign (foldl (extract_target e) st xs))
   \<and> processed_targets (campaign (foldl (extract_target e) st xs)) \<le> processed_targets (campaign st) + int (length xs)
   \<and> successful_extractions (campaign (foldl (extract_target e) st xs)) - int (length (extracted_profiles (foldl (extract_target e) st xs)))
       = successful_extractions (campaign st) - int (length (extracted_profiles st))
   \<and> length (extracted_profiles st) \<le> length (extracted_profiles (foldl (extract_target e) st xs))"
proof (induction xs arbitrary: st)
  case Nil
  show ?case by simp
next
  case (Cons x xs)
  from Cons.IH [of "extract_target e st x"] extract_target_counters [of e st x]
  show ?case by simp
qed

lemma process_batch_counters:
  "total_targets (campaign (process_batch e st i batch)) = total_targets (campaign st)
   \<and> qualified_leads (campaign (process_batch e st i batch)) = qualified_leads (campaign st)
   \<and> after_batch (process_batch e st i batch) = after_batch st
   \<and> processed_targets (campaign st) \<le> processed_targets (campaign (process_batch e st i batch))
   \<and> processed_targets (campaign (process_batch e st i batch)) \<le> processed_targets (campaign st) + int (length batch)
   \<and> successful_extractions (campaign (process_batch e st i batch)) - int (length (extracted_profiles (process_batch e st i batch)))
       = successful_extractions (campaign st) - int (length (extracted_profiles st))
   \<and> length (extracted_profiles st) \<le> length (extracted_profiles (process_batch e st i batch))"
  using foldl_extract_target_counters [of e st "zip [i ..< i + length batch] batch"]
  by (simp add: process_batch_def)

lemma extraction_loop_counters:
  shows "pause_keeps_counters e
     \<Longrightarrow> processed_targets (campaign st) + int (length targets - i) \<le> total_targets (campaign st)
     \<Longrightarrow> qualified_leads (campaign st) + int (length (extracted_profiles st)) \<le> successful_extractions (campaign st)
     \<Longrightarrow> \<forall>s \<in> set (after_batch st). counters_ok s
     \<Longrightarrow> loop_post st (fst (extraction_loop e bs targets i st))"
proof (induction e bs targets i st rule: extraction_loop.induct)
  case (1 e bs targets i st)
  note pk = "1.prems"(1) and pre = "1.prems"(2-)
  show ?case
  proof (cases "bs = 0 \<or> length targets \<le> i")
    case True
    with pre show ?thesis
      by (simp add: extraction_loop.simps [of e bs targets i st] loop_post_def)
  next
    case False
    define batch where "batch = take bs (drop i targets)"
    define st1 where "st1 = say (LogBatch (i div bs + 1) (length batch)) st"
    show ?thesis
    proof (cases "check_detection_risk e i")
      case (Inl err)
      with False pre show ?thesis
        by (simp add: extraction_loop.simps [of e bs targets i st] loop_post_def Let_def)
    next
      case (Inr risk)
      show ?thesis
      proof (cases "risk > 7 / 10")
        case True
        show ?thesis
        proof (cases "emergency_pause e (campaign st)")
          case (Inl err)
          with False Inr True pre show ?thesis
            by (simp add: extraction_loop.simps [of e bs targets i st] loop_post_def Let_def)
        next
          case (Inr c)
          with pk have "total_targets c = total_targets (campaign st)
              \<and> processed_targets c = processed_targets (campaign st)
              \<and> successful_extractions c = successful_extractions (campaign st)
              \<and> qualified_leads c = qualified_leads (campaign st)"
            unfolding pause_keeps_counters_def by blast
          with False \<open>check_detection_risk e i = Inr risk\<close> True Inr pre show ?thesis
            by (simp add: extraction_loop.simps [of e bs targets i st] loop_post_def Let_def)
        qed
      next
        case nr: False
        define st2 where "st2 = process_batch e st1 i batch"
        define st3 where "st3 = st2\<lparr>after_batch := after_batch st2 @ [campaign st2]\<rparr>"
        define st4 where "st4 = (if i + bs < length targets then say LogBatchPause st3 else st3)"
        have unf: "extraction_loop e bs targets i st = extraction_loop e bs targets (i + bs) st4"
          using False Inr nr
          by (simp add: extraction_loop.simps [of e bs targets i st] Let_def
                st4_def st3_def st2_def st1_def batch_def)
        have pb: "total_targets (campaign st2) = total_targets (campaign st)"
                 "qualified_leads (campaign st2) = qualified_leads (campaign st)"
                 "after_batch st2 = after_batch st"
                 "processed_targets (campaign st2) \<le> processed_targets (campaign st) + int (length batch)"
                 "successful_extractions (campaign st2) - int (length (extracted_profiles st2))
                    = successful_extractions (campaign st) - int (length (extracted_profiles st))"
                 "length (extracted_profiles st) \<le> length (extracted_profiles st2)"
          using process_batch_counters [of e st1 i batch] by (simp_all add: st2_def st1_def)
        have c4: "campaign st4 = campaign st2" "extracted_profiles st4 = extracted_profiles st2"
                 "after_batch st4 = after_batch st @ [campaign st2]"
          by (simp_all add: st4_def st3_def pb)
        have lb: "length batch = min bs (length targets - i)"
          by (simp add: batch_def min_def)
        have ok2: "counters_ok (campaign st2)"
          using pre pb lb by (simp add: counters_ok_def min_def split: if_splits)
        have p1: "processed_targets (campaign st4) + int (length targets - (i + bs)) \<le> total_targets (campaign st4)"
          using pre pb lb False by (simp add: c4 min_def split: if_splits)
        have p2: "qualified_leads (campaign st4) + int (length (extracted_profiles st4)) \<le> successful_extractions (campaign st4)"
          using pre pb by (simp add: c4)
        have p3: "\<forall>s \<in> set (after_batch st4). counters_ok s"
          using pre ok2 by (simp add: c4)
        have "loop_post st4 (fst (extraction_loop e bs targets (i + bs) st4))"
          using "1.IH" [OF False batch_def st1_def Inr nr st2_def st3_def st4_def pk p1 p2 p3] .
        then show ?thesis
          using pb by (simp add: unf loop_post_def c4)
      qed
    qed
  qed
qed

lemma execute_neural_extraction_counters:
  assumes "pause_keeps_counters e"
      and "processed_targets c + int (length (extraction_targets c)) \<le> total_targets c"
      and "qualified_leads c \<le> successful_extractions c"
  shows "list_all counters_ok (after_batch (execute_neural_extraction e c sp))
     \<and> processed_targets (campaign (execute_neural_extraction e c sp))
          \<le> total_targets (campaign (execute_neural_extraction e c sp))
     \<and> qualified_leads (campaign (execute_neural_extraction e c sp))
          + int (length (extracted_profiles (execute_neural_extraction e c sp)))
          \<le> successful_extractions (campaign (execute_neural_extraction e c sp))"
proof -
  define st0 where "st0 = \<lparr>campaign = c, extracted_profiles = [], logged = [], after_batch = []\<rparr>"
  define r where "r = extraction_loop e (nat (batch_size sp)) (extraction_targets c) 0 st0"
  have "loop_post st0 (fst r)"
    unfolding r_def using assms
    by (intro extraction_loop_counters) (simp_all add: st0_def)
  then have lp: "list_all counters_ok (after_batch (fst r))"
      "processed_targets (campaign (fst r)) \<le> total_targets (campaign (fst r))"
      "qualified_leads (campaign (fst r)) = qualified_leads c"
      "successful_extractions (campaign (fst r)) = successful_extractions c + int (length (extracted_profiles (fst r)))"
    by (simp_all add: loop_post_def st0_def list_all_iff)
  have ok0: "processed_targets c \<le> total_targets c"
    using assms(2) by linarith
  consider "batch_size sp = 0" | "batch_size sp < 0" | "0 < batch_size sp"
    by linarith
  then show ?thesis
  proof cases
    case 1
    with assms(3) ok0 show ?thesis
      by (simp add: execute_neural_extraction_def)
  next
    case 2
    with assms(3) ok0 show ?thesis
      by (simp add: execute_neural_extraction_def)
  next
    case 3
    then have "execute_neural_extraction e c sp =
        (case snd r of
           None \<Rightarrow> say (LogExtractionDone (length (extracted_profiles (fst r)))) (fst r)
         | Some err \<Rightarrow> (say LogExtractionError (fst r))\<lparr>extracted_profiles := []\<rparr>)"
      unfolding execute_neural_extraction_def r_def st0_def Let_def by simp
    with lp assms(3) show ?thesis
      by (cases "snd r") simp_all
  qed
qed

lemma length_execute_neural_analysis:
  "length (execute_neural_analysis e profiles) \<le> length profiles"
proof -
  have "length (foldl (\<lambda>analyses profile.
              case analyze_profile_neural e profile of
                Inl err \<Rightarrow> analyses
              | Inr analysis \<Rightarrow> analyses @ [analysis]) acc profiles) \<le> length acc + length profiles"
    for acc
  proof (induction profiles arbitrary: acc)
    case Nil
    show ?case by simp
  next
    case (Cons p ps)
    show ?case
      using Cons.IH [of "case analyze_profile_neural e p of Inl err \<Rightarrow> acc | Inr analysis \<Rightarrow> acc @ [analysis]"]
      by (cases "analyze_profile_neural e p") simp_all
  qed
  from this [of "[]"] show ?thesis
    by (simp add: execute_neural_analysis_def)
qed

lemma qualify_one_counters:
  "total_targets (fst (qualify_one cfg cq a)) = total_targets (fst cq)
   \<and> processed_targets (fst (qualify_one cfg cq a)) = processed_targets (fst cq)
   \<and> successful_extractions (fst (qualify_one cfg cq a)) = successful_extractions (fst cq)
   \<and> qualified_leads (fst (qualify_one cfg cq a)) \<le> qualified_leads (fst cq) + 1"
  by (cases cq) (simp add: qualify_one_def Let_def)

lemma execute_lead_qualification_counters:
  "total_targets (fst (execute_lead_qualification cfg c analyses)) = total_targets c
   \<and> processed_targets (fst (execute_lead_qualification cfg c analyses)) = processed_targets c
   \<and> successful_extractions (fst (execute_lead_qualification cfg c analyses)) = successful_extractions c
   \<and> qualified_leads (fst (execute_lead_qualification cfg c analyses)) \<le> qualified_leads c + int (length analyses)"
proof -
  have "total_targets (fst (foldl (qualify_one cfg) cq analyses)) = total_targets (fst cq)
   \<and> processed_targets (fst (foldl (qualify_one cfg) cq analyses)) = processed_targets (fst cq)
   \<and> successful_extractions (fst (foldl (qualify_one cfg) cq analyses)) = successful_extractions (fst cq)
   \<and> qualified_leads (fst (foldl (qualify_one cfg) cq analyses)) \<le> qualified_leads (fst cq) + int (length analyses)"
    for cq
  proof (induction analyses arbitrary: cq)
    case Nil
    show ?case by simp
  next
    case (Cons a as)
    from Cons.IH [of "qualify_one cfg cq a"] qualify_one_counters [of cfg cq a]
    show ?case by simp
  qed
  from this [of "(c, [])"] show ?thesis
    by (simp add: execute_lead_qualification_def)
qed

text \<open>
  Claim C1, as amended. The counters are never reset and nothing keeps a campaign
  from being executed again, so the invariant is one of a run that starts with room
  for its targets: if \<^verbatim>\<open>emergency_pause\<close> leaves the counters alone, and a run
  starts with \<open>processed_targets + len(extraction_targets) \<le> total_targets\<close> and
  \<open>qualified_leads \<le> successful_extractions\<close> (as every campaign made by
  \<^verbatim>\<open>create_stealth_campaign\<close> does on its first run), then after every batch of
  the extraction loop and after the qualification phase
  \<open>processed_targets \<le> total_targets\<close> and
  \<open>qualified_leads \<le> successful_extractions\<close>.
\<close>

theorem campaign_counters_invariant:
  assumes "pause_keeps_counters e"
      and "processed_targets c + int (length (extraction_targets c)) \<le> total_targets c"
      and "qualified_leads c \<le> successful_extractions c"
  shows "list_all counters_ok (after_batch (execute_neural_extraction e c sp))
     \<and> counters_ok (fst (execute_lead_qualification cfg
           (campaign (execute_neural_extraction e c sp))
           (execute_neural_analysis e (extracted_profiles (execute_neural_extraction e c sp)))))"
proof -
  define st where "st = execute_neural_extraction e c sp"
  define analyses where "analyses = execute_neural_analysis e (extracted_profiles st)"
  have ex: "list_all counters_ok (after_batch st)"
      "processed_targets (campaign st) \<le> total_targets (campaign st)"
      "qualified_leads (campaign st) + int (length (extracted_profiles st))
          \<le> successful_extractions (campaign st)"
    using execute_neural_extraction_counters [OF assms, of sp] by (simp_all add: st_def)
  have "length analyses \<le> length (extracted_profiles st)"
    by (simp add: analyses_def length_execute_neural_analysis)
  with ex execute_lead_qualification_counters [of cfg "campaign st" analyses]
  have "counters_ok (fst (execute_lead_qualification cfg (campaign st) analyses))"
    by (simp add: counters_ok_def)
  with ex(1) show ?thesis
    by (simp add: st_def analyses_def)
qed

text \<open>A campaign as \<^verbatim>\<open>create_stealth_campaign\<close> makes it meets the two conditions.\<close>

lemma new_campaign_counters:
  "processed_targets (new_campaign new_id cc) + int (length (extraction_targets (new_campaign new_id cc)))
      \<le> total_targets (new_campaign new_id cc)
   \<and> qualified_leads (new_campaign new_id cc) \<le> successful_extractions (new_campaign new_id cc)"
  by (simp add: new_campaign_def)

lemmas example_defs =
  execute_stealth_campaign_def example_generator_def default_config_def default_stealth_mode_levels_def
  execute_neural_extraction_def example_env_def example_campaign_def new_campaign_def
  get_default_def extraction_loop.simps process_batch_def extract_target_def say_def Let_def
  execute_neural_analysis_def execute_lead_qualification_def qualify_one_def generate_lead_intelligence_def
  create_lead_intelligence_def true_div_def campaign_failed_def

text \<open>The invariant at a campaign of one target, on its first run.\<close>

theorem campaign_counters_invariant_witness:
  "pause_keeps_counters (example_env 0)
   \<and> processed_targets example_campaign + int (length (extraction_targets example_campaign))
        \<le> total_targets example_campaign
   \<and> qualified_leads example_campaign \<le> successful_extractions example_campaign
   \<and> list_all counters_ok (after_batch (execute_neural_extraction (example_env 0) example_campaign
         \<lparr>delay_multiplier = 2, batch_size = 3\<rparr>))
   \<and> counters_ok (fst (execute_lead_qualification default_config
           (campaign (execute_neural_extraction (example_env 0) example_campaign
               \<lparr>delay_multiplier = 2, batch_size = 3\<rparr>))
           (execute_neural_analysis (example_env 0)
              (extracted_profiles (execute_neural_extraction (example_env 0) example_campaign
                 \<lparr>delay_multiplier = 2, batch_size = 3\<rparr>)))))"
proof -
  have h1: "pause_keeps_counters (example_env 0)"
    by (auto simp add: pause_keeps_counters_def example_env_def)
  have h2: "processed_targets example_campaign + int (length (extraction_targets example_campaign))
        \<le> total_targets example_campaign"
    by (simp add: example_campaign_def new_campaign_def get_default_def)
  have h3: "qualified_leads example_campaign \<le> successful_extractions example_campaign"
    by (simp add: example_campaign_def new_campaign_def)
  from campaign_counters_invariant [OF h1 h2 h3, of "\<lparr>delay_multiplier = 2, batch_size = 3\<rparr>" default_config]
  show ?thesis using h1 h2 h3 by simp
qed

text \<open>
  Claim C1 as stated fails for a campaign that is executed twice: a campaign of one
  target, created by \<^verbatim>\<open>create_stealth_campaign\<close>, has processed two targets of
  one after its second run.
\<close>

theorem counters_rerun_counterexample:
  "active_campaigns
     (fst (execute_stealth_campaign (example_env 0)
        (fst (execute_stealth_campaign (example_env 0) (example_generator example_campaign) ''c1''))
        ''c1'')) ''c1''
     = Some \<lparr>campaign_id = ''c1'', stealth_level = 3, extraction_targets = [''u1''],
             lead_qualification_threshold = 6 / 10, status = ''completed'',
             total_targets = 1, processed_targets = 2, successful_extractions = 2,
             qualified_leads = 2, high_value_leads = 2, qualified_leads_list = []\<rparr>
   \<and> \<not> counters_ok \<lparr>campaign_id = ''c1'', stealth_level = 3, extraction_targets = [''u1''],
             lead_qualification_threshold = 6 / 10, status = ''completed'',
             total_targets = 1, processed_targets = 2, successful_extractions = 2,
             qualified_leads = 2, high_value_leads = 2, qualified_leads_list = []\<rparr>"
  by (simp add: example_defs counters_ok_def)


subsection \<open>Re-entry\<close>

text \<open>
  Claim C2, as amended. \<^verbatim>\<open>execute_stealth_campaign\<close> has no guard on the status.
  It rejects only a campaign identifier that is not in \<^verbatim>\<open>active_campaigns\<close>
  (\<^verbatim>\<open>ValueError\<close>, nothing changed). For a known campaign \<open>c\<close>, whatever its
  status, the status is overwritten with \<^verbatim>\<open>active\<close> and the pipeline runs on it:
  with the stealth level in the configured table, the extraction runs on \<open>c\<close> with
  status \<^verbatim>\<open>active\<close> and its log is appended, the campaign that is stored
  afterwards is the one that the qualification of the extracted profiles produced,
  with status \<^verbatim>\<open>completed\<close> when a result is returned and \<^verbatim>\<open>failed\<close> when an
  exception is raised; with the stealth level missing from the table the campaign is
  stored as \<^verbatim>\<open>failed\<close> and \<^verbatim>\<open>KeyError\<close> raised. The run is the same whatever
  the status \<open>s\<close> was before.
\<close>

theorem execute_runs_whatever_status:
  "(case active_campaigns g cid of
      None \<Rightarrow> execute_stealth_campaign e g cid = (g, Inl ValueError)
    | Some c \<Rightarrow>
        execute_stealth_campaign e
            (g\<lparr>active_campaigns := (active_campaigns g)(cid \<mapsto> c\<lparr>status := s\<rparr>)\<rparr>) cid
          = execute_stealth_campaign e g cid
        \<and> (case stealth_mode_levels (gen_config g) (stealth_level c) of
             None \<Rightarrow>
               execute_stealth_campaign e g cid
                 = (g\<lparr>active_campaigns := (active_campaigns g)(cid \<mapsto> c\<lparr>status := ''failed''\<rparr>)\<rparr>,
                    Inl KeyError)
           | Some sp \<Rightarrow>
               (let st = execute_neural_extraction e (c\<lparr>status := ''active''\<rparr>) sp;
                    q = fst (execute_lead_qualification (gen_config g) (campaign st)
                               (execute_neural_analysis e (extracted_profiles st)))
                in gen_log (fst (execute_stealth_campaign e g cid)) = gen_log g @ logged st
                   \<and> (case snd (execute_stealth_campaign e g cid) of
                        Inl err \<Rightarrow>
                          active_campaigns (fst (execute_stealth_campaign e g cid)) cid
                            = Some (q\<lparr>status := ''failed''\<rparr>)
                      | Inr result \<Rightarrow>
                          active_campaigns (fst (execute_stealth_campaign e g cid)) cid
                            = Some (q\<lparr>status := ''completed''\<rparr>)
                          \<and> result_status result = ''completed''
                          \<and> result_campaign_id result = cid))))"
proof (cases "active_campaigns g cid")
  case None
  then show ?thesis by (simp add: execute_stealth_campaign_def)
next
  case (Some c)
  have same: "execute_stealth_campaign e
            (g\<lparr>active_campaigns := (active_campaigns g)(cid \<mapsto> c\<lparr>status := s\<rparr>)\<rparr>) cid
          = execute_stealth_campaign e g cid"
    using Some
    by (simp add: execute_stealth_campaign_def campaign_failed_def Let_def
          split: option.split sum.split prod.split)
  show ?thesis
  proof (cases "stealth_mode_levels (gen_config g) (stealth_level c)")
    case None
    with Some same show ?thesis
      by (simp add: execute_stealth_campaign_def campaign_failed_def)
  next
    case (Some sp)
    with \<open>active_campaigns g cid = Some c\<close> have
      "let st = execute_neural_extraction e (c\<lparr>status := ''active''\<rparr>) sp;
           q = fst (execute_lead_qualification (gen_config g) (campaign st)
                      (execute_neural_analysis e (extracted_profiles st)))
       in gen_log (fst (execute_stealth_campaign e g cid)) = gen_log g @ logged st
          \<and> (case snd (execute_stealth_campaign e g cid) of
               Inl err \<Rightarrow>
                 active_campaigns (fst (execute_stealth_campaign e g cid)) cid
                   = Some (q\<lparr>status := ''failed''\<rparr>)
             | Inr result \<Rightarrow>
                 active_campaigns (fst (execute_stealth_campaign e g cid)) cid
                   = Some (q\<lparr>status := ''completed''\<rparr>)
                 \<and> result_status result = ''completed''
                 \<and> result_campaign_id result = cid)"
      by (simp add: execute_stealth_campaign_def campaign_failed_def Let_def
            split: option.split sum.split prod.split)
    with \<open>active_campaigns g cid = Some c\<close> Some same show ?thesis
      by simp
  qed
qed

text \<open>
  Claim C2 as stated fails: a campaign whose status is \<^verbatim>\<open>completed\<close> is not
  rejected. The extraction runs again (the log shows the batch and the extracted
  profile) and the call returns a result.
\<close>

theorem rerun_completed_counterexample:
  "execute_stealth_campaign (example_env 0)
     (example_generator (example_campaign\<lparr>status := ''completed''\<rparr>)) ''c1''
   = (\<lparr>gen_config = default_config,
       active_campaigns =
         [''c1'' \<mapsto> \<lparr>campaign_id = ''c1'', stealth_level = 3, extraction_targets = [''u1''],
             lead_qualification_threshold = 6 / 10, status = ''completed'',
             total_targets = 1, processed_targets = 1, successful_extractions = 1,
             qualified_leads = 1, high_value_leads = 1, qualified_leads_list = []\<rparr>],
       gen_log = [LogBatch 1 1, LogDelay, LogExtracted ''Ada'', LogExtractionDone 1]\<rparr>,
      Inr \<lparr>result_campaign_id = ''c1'', result_status = ''completed'', result_metrics = [],
           result_qualified_leads = 0, result_high_value_leads = 1, success_rate = 1\<rparr>)"
  by (simp add: example_defs)

subsection \<open>Pause on high detection risk\<close>

text \<open>
  Claim C4, as amended. At the start of each batch the extraction loop compares
  \<^verbatim>\<open>check_detection_risk()\<close> with the literal 0.7 (not with a configured
  threshold). When the risk is above 0.7, \<^verbatim>\<open>emergency_pause\<close> is called on the
  campaign and the loop is left: the targets from this batch on are not processed,
  no profile is added, and the campaign is what \<^verbatim>\<open>emergency_pause\<close> made of it.
\<close>

theorem high_risk_exits_loop:
  assumes "0 < bs" and "i < length targets"
      and "check_detection_risk e i = Inr risk" and "7 / 10 < risk"
      and "emergency_pause e (campaign st) = Inr c"
  shows "extraction_loop e bs targets i st =
     (st\<lparr>logged := logged st @ [LogBatch (i div bs + 1) (length (take bs (drop i targets))), LogHighRisk],
         campaign := c\<rparr>, None)"
  using assms by (simp add: extraction_loop.simps [of e bs targets i st] say_def Let_def)

text \<open>A risk of 0.75 at the first batch of two targets.\<close>

theorem high_risk_exits_loop_witness:
  "(0::nat) < 3 \<and> (0::nat) < length [''u1'', ''u2'']
   \<and> check_detection_risk (example_env (75 / 100)) 0 = Inr (75 / 100) \<and> (7 / 10 :: real) < 75 / 100
   \<and> emergency_pause (example_env (75 / 100)) example_campaign = Inr (example_campaign\<lparr>status := ''paused''\<rparr>)
   \<and> extraction_loop (example_env (75 / 100)) 3 [''u1'', ''u2''] 0
        \<lparr>campaign = example_campaign, extracted_profiles = [], logged = [], after_batch = []\<rparr>
      = (\<lparr>campaign = example_campaign\<lparr>status := ''paused''\<rparr>, extracted_profiles = [],
          logged = [LogBatch 1 2, LogHighRisk], after_batch = []\<rparr>, None)"
proof -
  have h3: "check_detection_risk (example_env (75 / 100)) 0 = Inr (75 / 100)"
    by (simp add: example_env_def)
  have h5: "emergency_pause (example_env (75 / 100))
        (campaign \<lparr>campaign = example_campaign, extracted_profiles = [], logged = [], after_batch = []\<rparr>)
      = Inr (example_campaign\<lparr>status := ''paused''\<rparr>)"
    by (simp add: example_env_def)
  have h1: "(0::nat) < 3" and h2: "(0::nat) < length [''u1'', ''u2'']" and h4: "(7 / 10 :: real) < 75 / 100"
    by simp_all
  from high_risk_exits_loop [OF h1 h2 h3 h4 h5] h3 h5 show ?thesis by simp
qed

text \<open>
  Claim C4 as stated fails: with the default configuration and a risk of 0.9, above
  the configured emergency threshold of 0.8, the campaign is not left suspended.
  \<^verbatim>\<open>execute_stealth_campaign\<close> goes on with the later phases and the campaign
  ends as \<^verbatim>\<open>completed\<close>, with none of its targets processed.
\<close>

theorem pause_then_completed_counterexample:
  "emergency_shutdown_threshold default_config < 9 / 10
   \<and> execute_stealth_campaign (example_env (9 / 10)) (example_generator example_campaign) ''c1''
   = (\<lparr>gen_config = default_config,
       active_campaigns =
         [''c1'' \<mapsto> \<lparr>campaign_id = ''c1'', stealth_level = 3, extraction_targets = [''u1''],
             lead_qualification_threshold = 6 / 10, status = ''completed'',
             total_targets = 1, processed_targets = 0, successful_extractions = 0,
             qualified_leads = 0, high_value_leads = 0, qualified_leads_list = []\<rparr>],
       gen_log = [LogBatch 1 1, LogHighRisk, LogExtractionDone 0]\<rparr>,
      Inr \<lparr>result_campaign_id = ''c1'', result_status = ''completed'', result_metrics = [],
           result_qualified_leads = 0, result_high_value_leads = 0, success_rate = 0\<rparr>)"
  by (simp add: example_defs)

subsection \<open>Empty campaigns\<close>

lemma extraction_loop_no_targets:
  "extraction_loop e bs [] 0 st = (st, None)"
  by (simp add: extraction_loop.simps [of e bs "[]" 0 st])

lemma execute_neural_extraction_no_targets:
  "extraction_targets c = [] \<Longrightarrow>
   campaign (execute_neural_extraction e c sp) = c
   \<and> extracted_profiles (execute_neural_extraction e c sp) = []"
  by (auto simp add: execute_neural_extraction_def extraction_loop_no_targets Let_def)

text \<open>
  Claim C10. For a campaign in \<^verbatim>\<open>active_campaigns\<close> with an empty target list
  and \<^verbatim>\<open>total_targets = 0\<close>, whose stealth level is in the configured table and
  whose closing collaborators do not raise, \<^verbatim>\<open>execute_stealth_campaign\<close> returns
  a result, not an error, and its \<^verbatim>\<open>success_rate\<close> is 0: the division is not
  evaluated.
\<close>

theorem empty_campaign_success_rate:
  assumes "active_campaigns g cid = Some c"
      and "extraction_targets c = []" and "total_targets c = 0"
      and "stealth_mode_levels (gen_config g) (stealth_level c) = Some sp"
      and "finalisation_succeeds e"
  shows "\<exists>r. snd (execute_stealth_campaign e g cid) = Inr r
           \<and> success_rate r = 0 \<and> result_status r = ''completed''"
proof -
  define c1 where "c1 = c\<lparr>status := ''active''\<rparr>"
  define c3 where "c3 = c\<lparr>status := ''completed''\<rparr>"
  have ex: "campaign (execute_neural_extraction e c1 sp) = c1"
           "extracted_profiles (execute_neural_extraction e c1 sp) = []"
    using execute_neural_extraction_no_targets [of c1 e sp] assms(2) by (simp_all add: c1_def)
  have ph: "execute_neural_analysis e [] = []"
           "execute_lead_qualification (gen_config g) c1 [] = (c1, [])"
           "generate_lead_intelligence e (gen_config g) c1 [] = []"
    by (simp_all add: execute_neural_analysis_def execute_lead_qualification_def
          generate_lead_intelligence_def)
  have int: "(if existing_system_available e then integrate_with_existing_system e c1 [] else None) = None"
    using assms(5) by (simp add: finalisation_succeeds_def)
  have c13: "c1\<lparr>status := ''completed''\<rparr> = c3"
    by (simp add: c1_def c3_def)
  obtain m where m: "calculate_campaign_metrics e c3 = Inr m"
    using assms(5) unfolding finalisation_succeeds_def
    by (cases "calculate_campaign_metrics e c3") (auto split: sum.splits)
  have sv: "save_stealth_campaign e c3 = None"
    using assms(5) by (simp add: finalisation_succeeds_def)
  have tt: "\<not> 0 < total_targets c3"
    using assms(3) by (simp add: c3_def)
  have lk: "stealth_mode_levels (gen_config g) (stealth_level c1) = Some sp"
    using assms(4) by (simp add: c1_def)
  have "snd (execute_stealth_campaign e g cid) =
      Inr \<lparr>result_campaign_id = cid, result_status = ''completed'', result_metrics = m,
           result_qualified_leads = length (qualified_leads_list c3),
           result_high_value_leads = high_value_leads c3, success_rate = 0\<rparr>"
    unfolding execute_stealth_campaign_def Let_def assms(1) option.case c1_def [symmetric]
      lk ex ph prod.case int c13 m sum.case sv
    using tt by simp
  then show ?thesis by simp
qed

text \<open>A campaign created without targets.\<close>

theorem empty_campaign_success_rate_witness:
  "active_campaigns (example_generator (new_campaign ''c1'' \<lparr>cfg_stealth_level = None, cfg_targets = None, cfg_qualification_threshold = None\<rparr>)) ''c1''
      = Some (new_campaign ''c1'' \<lparr>cfg_stealth_level = None, cfg_targets = None, cfg_qualification_threshold = None\<rparr>)
   \<and> extraction_targets (new_campaign ''c1'' \<lparr>cfg_stealth_level = None, cfg_targets = None, cfg_qualification_threshold = None\<rparr>) = []
   \<and> total_targets (new_campaign ''c1'' \<lparr>cfg_stealth_level = None, cfg_targets = None, cfg_qualification_threshold = None\<rparr>) = 0
   \<and> finalisation_succeeds (example_env 0)
   \<and> snd (execute_stealth_campaign (example_env 0)
        (example_generator (new_campaign ''c1'' \<lparr>cfg_stealth_level = None, cfg_targets = None, cfg_qualification_threshold = None\<rparr>)) ''c1'')
      = Inr \<lparr>result_campaign_id = ''c1'', result_status = ''completed'', result_metrics = [],
           result_qualified_leads = 0, result_high_value_leads = 0, success_rate = 0\<rparr>"
proof -
  define c where "c = new_campaign ''c1'' \<lparr>cfg_stealth_level = None, cfg_targets = None, cfg_qualification_threshold = None\<rparr>"
  have h1: "active_campaigns (example_generator c) ''c1'' = Some c"
    by (simp add: example_generator_def)
  have h2: "extraction_targets c = []" and h3: "total_targets c = 0"
    by (simp_all add: c_def new_campaign_def get_default_def)
  have h4: "stealth_mode_levels (gen_config (example_generator c)) (stealth_level c)
      = Some \<lparr>delay_multiplier = 2, batch_size = 3\<rparr>"
    by (simp add: example_generator_def default_config_def default_stealth_mode_levels_def
          c_def new_campaign_def get_default_def)
  have h5: "finalisation_succeeds (example_env 0)"
    by (simp add: finalisation_succeeds_def example_env_def)
  from empty_campaign_success_rate [OF h1 h2 h3 h4 h5]
  obtain r where r: "snd (execute_stealth_campaign (example_env 0) (example_generator c) ''c1'') = Inr r"
    and "success_rate r = 0"
    by blast
  have "snd (execute_stealth_campaign (example_env 0) (example_generator c) ''c1'')
      = Inr \<lparr>result_campaign_id = ''c1'', result_status = ''completed'', result_metrics = [],
           result_qualified_leads = 0, result_high_value_leads = 0, success_rate = 0\<rparr>"
    by (simp add: c_def example_defs extraction_loop_no_targets)
  with h1 h2 h3 h5 show ?thesis by (simp add: c_def)
qed

subsection \<open>Failures of single targets\<close>

lemma foldl_extract_target_trace:
  "logged (foldl (extract_target e) st xs)
      = logged st @ concat (map (\<lambda>jt. [LogDelay, outcome_event e jt]) xs)
   \<and> extracted_profiles (foldl (extract_target e) st xs)
      = extracted_profiles st @ concat (map (outcome_profile e) (map fst xs))"
proof (induction xs arbitrary: st)
  case Nil
  show ?case by simp
next
  case (Cons x xs)
  have "logged (extract_target e st x) = logged st @ [LogDelay, outcome_event e x]
      \<and> extracted_profiles (extract_target e st x) = extracted_profiles st @ outcome_profile e (fst x)"
    by (cases x)
       (simp add: extract_target_def outcome_event_def outcome_profile_def Let_def
          split: extract_outcome.split option.split)
  with Cons.IH [of "extract_target e st x"] show ?case by simp
qed

lemma process_batch_trace:
  "logged (process_batch e st i batch)
      = logged st @ concat (map (\<lambda>jt. [LogDelay, outcome_event e jt]) (zip [i ..< i + length batch] batch))
   \<and> extracted_profiles (process_batch e st i batch)
      = extracted_profiles st @ concat (map (outcome_profile e) [i ..< i + length batch])"
  using foldl_extract_target_trace [of e st "zip [i ..< i + length batch] batch"]
  by (simp add: process_batch_def)


lemma extraction_loop_all_targets:
  "risk_stays_low e \<Longrightarrow> 0 < bs \<Longrightarrow>
   snd (extraction_loop e bs targets i st) = None
   \<and> extracted_profiles (fst (extraction_loop e bs targets i st))
       = extracted_profiles st @ concat (map (outcome_profile e) [i ..< length targets])"
proof (induction e bs targets i st rule: extraction_loop.induct)
  case (1 e bs targets i st)
  note low = "1.prems"(1) and bs = "1.prems"(2)
  show ?case
  proof (cases "length targets \<le> i")
    case True
    then show ?thesis
      by (simp add: extraction_loop.simps [of e bs targets i st])
  next
    case False
    with bs have go: "\<not> (bs = 0 \<or> length targets \<le> i)" by simp
    from low obtain risk where risk: "check_detection_risk e i = Inr risk" and nr: "\<not> 7 / 10 < risk"
      unfolding risk_stays_low_def
      by (cases "check_detection_risk e i") (auto dest: spec [of _ i])
    define batch where "batch = take bs (drop i targets)"
    define st1 where "st1 = say (LogBatch (i div bs + 1) (length batch)) st"
    define st2 where "st2 = process_batch e st1 i batch"
    define st3 where "st3 = st2\<lparr>after_batch := after_batch st2 @ [campaign st2]\<rparr>"
    define st4 where "st4 = (if i + bs < length targets then say LogBatchPause st3 else st3)"
    have unf: "extraction_loop e bs targets i st = extraction_loop e bs targets (i + bs) st4"
      using go risk nr
      by (simp add: extraction_loop.simps [of e bs targets i st] Let_def
            st4_def st3_def st2_def st1_def batch_def)
    have lb: "i + length batch = min (i + bs) (length targets)"
      using False by (auto simp add: batch_def min_def)
    have p4: "extracted_profiles st4
        = extracted_profiles st @ concat (map (outcome_profile e) [i ..< min (i + bs) (length targets)])"
      using process_batch_trace [of e st1 i batch]
      by (simp add: st4_def st3_def st2_def st1_def lb)
    have split: "[i ..< length targets]
        = [i ..< min (i + bs) (length targets)] @ [i + bs ..< length targets]"
    proof (cases "i + bs \<le> length targets")
      case True
      have "[i ..< (i + bs) + (length targets - (i + bs))]
          = [i ..< i + bs] @ [i + bs ..< (i + bs) + (length targets - (i + bs))]"
        by (rule upt_add_eq_append) simp
      with True show ?thesis
        by (simp add: min_def)
    next
      case False
      then show ?thesis by (simp add: min_def)
    qed
    from "1.IH" [OF go batch_def st1_def risk nr st2_def st3_def st4_def low bs]
    show ?thesis
      by (simp add: unf p4 split)
  qed
qed

lemmas example_scraper_defs =
  example_scraper_def example_world_def default_scraper_config_def get_available_browser_def
  create_stealth_browser_def stealth_options_def random_choice_def release_browser_def
  extract_linkedin_profile_def create_replacement_browser_def Let_def

lemma release_browser_marks_free:
  "\<not> in_use (store (release_browser w sc r) r)"
  by (simp add: release_browser_def Let_def split: option.split)

text \<open>
  Claim C5. Within a batch every target is attempted, whatever happened to the
  targets before it: the log of the batch has, for each target in order, the delay
  and then the line for that target's own outcome (extracted, failed, or the error
  of the exception), and the profiles of the batch are those of the targets that
  returned one. While the risk stays low, the loop over all batches ends without an
  exception and has the profile of every target that returned one. In the scraper,
  a browser leased by \<^verbatim>\<open>extract_linkedin_profile\<close> is never left in use, whatever
  the page did; when no browser could be had, the call returns \<^verbatim>\<open>None\<close>.
\<close>

theorem target_failure_is_contained:
  "logged (process_batch e st i batch)
      = logged st @ concat (map (\<lambda>jt. [LogDelay, outcome_event e jt]) (zip [i ..< i + length batch] batch))
   \<and> extracted_profiles (process_batch e st i batch)
      = extracted_profiles st @ concat (map (outcome_profile e) [i ..< i + length batch])
   \<and> (risk_stays_low e \<and> 0 < bs \<longrightarrow>
        snd (extraction_loop e bs targets k st) = None
        \<and> extracted_profiles (fst (extraction_loop e bs targets k st))
            = extracted_profiles st @ concat (map (outcome_profile e) [k ..< length targets]))
   \<and> (case get_available_browser w sc of
         (sc1, None) \<Rightarrow> extract_linkedin_profile w sc url = (sc1, None)
       | (sc1, Some r) \<Rightarrow> \<not> in_use (store (fst (extract_linkedin_profile w sc url)) r))"
proof -
  have "case get_available_browser w sc of
         (sc1, None) \<Rightarrow> extract_linkedin_profile w sc url = (sc1, None)
       | (sc1, Some r) \<Rightarrow> \<not> in_use (store (fst (extract_linkedin_profile w sc url)) r)"
  proof (cases "get_available_browser w sc")
    case (Pair sc1 leased)
    then show ?thesis
      by (cases leased)
         (simp_all add: extract_linkedin_profile_def Let_def release_browser_marks_free)
  qed
  with process_batch_trace [of e st i batch] extraction_loop_all_targets [of e bs targets k st]
  show ?thesis by simp
qed

text \<open>Four targets in batches of three, the second raising and the third without a profile.\<close>

theorem target_failure_is_contained_witness:
  "risk_stays_low example_env_failing \<and> (0::nat) < 3
   \<and> neural_scraper_extract example_env_failing 1 = Raises
   \<and> neural_scraper_extract example_env_failing 2 = Returns None
   \<and> snd (extraction_loop example_env_failing 3 (extraction_targets example_campaign_four) 0
        \<lparr>campaign = example_campaign_four, extracted_profiles = [], logged = [], after_batch = []\<rparr>)
      = None
   \<and> extracted_profiles (fst (extraction_loop example_env_failing 3 (extraction_targets example_campaign_four) 0
        \<lparr>campaign = example_campaign_four, extracted_profiles = [], logged = [], after_batch = []\<rparr>))
      = [\<lparr>scraped_id = ''p'', full_name = ''Ada''\<rparr>, \<lparr>scraped_id = ''p'', full_name = ''Ada''\<rparr>]
   \<and> logged (fst (extraction_loop example_env_failing 3 (extraction_targets example_campaign_four) 0
        \<lparr>campaign = example_campaign_four, extracted_profiles = [], logged = [], after_batch = []\<rparr>))
      = [LogBatch 1 3, LogDelay, LogExtracted ''Ada'', LogDelay, LogError ''u1'',
         LogDelay, LogFailed ''u2'', LogBatchPause, LogBatch 2 1, LogDelay, LogExtracted ''Ada'']"
proof -
  have low: "risk_stays_low example_env_failing"
    by (simp add: risk_stays_low_def example_env_failing_def example_env_def)
  have bs: "(0::nat) < 3"
    by simp
  have out: "outcome_profile example_env_failing 0 @ outcome_profile example_env_failing (Suc 0)
        @ outcome_profile example_env_failing (Suc (Suc 0))
        @ outcome_profile example_env_failing (Suc (Suc (Suc 0)))
      = [\<lparr>scraped_id = ''p'', full_name = ''Ada''\<rparr>, \<lparr>scraped_id = ''p'', full_name = ''Ada''\<rparr>]"
    by (simp add: outcome_profile_def example_env_failing_def example_env_def)
  have tg: "extraction_targets example_campaign_four = [''u0'', ''u1'', ''u2'', ''u3'']"
    by (simp add: example_campaign_four_def new_campaign_def get_default_def)
  have lg: "logged (fst (extraction_loop example_env_failing 3 [''u0'', ''u1'', ''u2'', ''u3''] 0
        \<lparr>campaign = example_campaign_four, extracted_profiles = [], logged = [], after_batch = []\<rparr>))
      = [LogBatch 1 3, LogDelay, LogExtracted ''Ada'', LogDelay, LogError ''u1'',
         LogDelay, LogFailed ''u2'', LogBatchPause, LogBatch 2 1, LogDelay, LogExtracted ''Ada'']"
    by (simp add: example_env_failing_def example_env_def extraction_loop.simps process_batch_def
          extract_target_def say_def Let_def)
  define st0 where "st0 = \<lparr>campaign = example_campaign_four, extracted_profiles = [], logged = [],
                       after_batch = []\<rparr>"
  note t = target_failure_is_contained
         [where e = example_env_failing and bs = 3 and k = 0 and i = 0 and batch = "[]"
            and targets = "[''u0'', ''u1'', ''u2'', ''u3'']" and st = st0
            and w = "example_world 0 (Inr 100)" and sc = "example_scraper True 1" and url = "''u0''"]
  from t low bs
  have a: "snd (extraction_loop example_env_failing 3 [''u0'', ''u1'', ''u2'', ''u3''] 0 st0) = None"
    by blast
  from t low bs
  have "extracted_profiles (fst (extraction_loop example_env_failing 3 [''u0'', ''u1'', ''u2'', ''u3''] 0 st0))
       = extracted_profiles st0
          @ concat (map (outcome_profile example_env_failing) [0 ..< length [''u0'', ''u1'', ''u2'', ''u3'']])"
    by blast
  then have b: "extracted_profiles (fst (extraction_loop example_env_failing 3 [''u0'', ''u1'', ''u2'', ''u3''] 0 st0))
       = [\<lparr>scraped_id = ''p'', full_name = ''Ada''\<rparr>, \<lparr>scraped_id = ''p'', full_name = ''Ada''\<rparr>]"
    using out by (simp add: st0_def)
  have x: "neural_scraper_extract example_env_failing 1 = Raises"
          "neural_scraper_extract example_env_failing 2 = Returns None"
    by (simp_all add: example_env_failing_def)
  from low x a b lg show ?thesis
    unfolding tg st0_def by simp
qed

subsection \<open>Browser pool\<close>

text \<open>
  Claim C3, as amended. \<^verbatim>\<open>get_available_browser\<close> returns the first entry of the
  pool that is not in use when there is one (every entry before it is in use),
  marking it in use and counting the session; nothing else changes. When every entry
  is in use it asks for a new browser, whatever the size of the pool and
  \<^verbatim>\<open>max_concurrent_sessions\<close>: if one is created it is appended to the pool and
  returned, and if not the call returns \<^verbatim>\<open>None\<close> at once. There is no wait.
\<close>

theorem get_available_browser_cases:
  "(find (\<lambda>r. \<not> in_use (store sc r)) (browser_pool sc) = Some r \<longrightarrow>
      get_available_browser w sc
        = (sc\<lparr>store := (store sc)
               (r := (store sc r)\<lparr>in_use := True, session_count := session_count (store sc r) + 1\<rparr>)\<rparr>,
           Some r))
   \<and> ((\<exists>r \<in> set (browser_pool sc). \<not> in_use (store sc r)) \<longrightarrow>
      (\<exists>i < length (browser_pool sc).
         \<not> in_use (store sc (browser_pool sc ! i))
         \<and> (\<forall>j < i. in_use (store sc (browser_pool sc ! j)))
         \<and> get_available_browser w sc
             = (sc\<lparr>store := (store sc)
                    (browser_pool sc ! i :=
                       (store sc (browser_pool sc ! i))
                         \<lparr>in_use := True,
                          session_count := session_count (store sc (browser_pool sc ! i)) + 1\<rparr>)\<rparr>,
                Some (browser_pool sc ! i))))
   \<and> ((\<forall>r \<in> set (browser_pool sc). in_use (store sc r)) \<and> create_stealth_browser w sc = Some b \<longrightarrow>
        get_available_browser w sc
          = (sc\<lparr>store := (store sc)
                 (next_ref sc := \<lparr>browser = b, in_use = True, created_at = now w, session_count = 1\<rparr>),
               browser_pool := browser_pool sc @ [next_ref sc],
               next_ref := next_ref sc + 1\<rparr>,
             Some (next_ref sc)))
   \<and> ((\<forall>r \<in> set (browser_pool sc). in_use (store sc r)) \<and> create_stealth_browser w sc = None \<longrightarrow>
        get_available_browser w sc = (sc, None))"
proof (intro conjI impI)
  assume "find (\<lambda>r. \<not> in_use (store sc r)) (browser_pool sc) = Some r"
  then show "get_available_browser w sc
        = (sc\<lparr>store := (store sc)
               (r := (store sc r)\<lparr>in_use := True, session_count := session_count (store sc r) + 1\<rparr>)\<rparr>,
           Some r)"
    by (simp add: get_available_browser_def)
next
  assume "\<exists>r \<in> set (browser_pool sc). \<not> in_use (store sc r)"
  then obtain r where f: "find (\<lambda>r. \<not> in_use (store sc r)) (browser_pool sc) = Some r"
    by (cases "find (\<lambda>r. \<not> in_use (store sc r)) (browser_pool sc)") (auto simp add: find_None_iff)
  then obtain i where i: "i < length (browser_pool sc)" "\<not> in_use (store sc (browser_pool sc ! i))"
      "r = browser_pool sc ! i" "\<forall>j < i. in_use (store sc (browser_pool sc ! j))"
    by (auto simp add: find_Some_iff)
  from f have "get_available_browser w sc
        = (sc\<lparr>store := (store sc)
               (r := (store sc r)\<lparr>in_use := True, session_count := session_count (store sc r) + 1\<rparr>)\<rparr>,
           Some r)"
    by (simp add: get_available_browser_def)
  with i show "\<exists>i < length (browser_pool sc).
         \<not> in_use (store sc (browser_pool sc ! i))
         \<and> (\<forall>j < i. in_use (store sc (browser_pool sc ! j)))
         \<and> get_available_browser w sc
             = (sc\<lparr>store := (store sc)
                    (browser_pool sc ! i :=
                       (store sc (browser_pool sc ! i))
                         \<lparr>in_use := True,
                          session_count := session_count (store sc (browser_pool sc ! i)) + 1\<rparr>)\<rparr>,
                Some (browser_pool sc ! i))"
    by blast
next
  assume a: "(\<forall>r \<in> set (browser_pool sc). in_use (store sc r)) \<and> create_stealth_browser w sc = Some b"
  then have "find (\<lambda>r. \<not> in_use (store sc r)) (browser_pool sc) = None"
    by (simp add: find_None_iff)
  with a show "get_available_browser w sc
          = (sc\<lparr>store := (store sc)
                 (next_ref sc := \<lparr>browser = b, in_use = True, created_at = now w, session_count = 1\<rparr>),
               browser_pool := browser_pool sc @ [next_ref sc],
               next_ref := next_ref sc + 1\<rparr>,
             Some (next_ref sc))"
    by (simp add: get_available_browser_def)
next
  assume a: "(\<forall>r \<in> set (browser_pool sc). in_use (store sc r)) \<and> create_stealth_browser w sc = None"
  then have "find (\<lambda>r. \<not> in_use (store sc r)) (browser_pool sc) = None"
    by (simp add: find_None_iff)
  with a show "get_available_browser w sc = (sc, None)"
    by (simp add: get_available_browser_def)
qed

text \<open>
  The three cases: a free pool, of which entry 0 is returned; a busy pool with a new
  browser; a busy pool without.
\<close>

theorem get_available_browser_cases_witness:
  "\<not> in_use (store (example_scraper False 1) 0)
   \<and> get_available_browser (example_world 0 (Inr 100)) (example_scraper False 1)
       = ((example_scraper False 1)
            \<lparr>store := (store (example_scraper False 1))
                (0 := \<lparr>browser = 0, in_use = True, created_at = 0, session_count = 2\<rparr>)\<rparr>, Some 0)
   \<and> list_all (\<lambda>r. in_use (store (example_scraper True 1) r)) (browser_pool (example_scraper True 1))
   \<and> create_stealth_browser (example_world 0 (Inr 100)) (example_scraper True 1) = Some 100
   \<and> snd (get_available_browser (example_world 0 (Inr 100)) (example_scraper True 1)) = Some 5
   \<and> browser_pool (fst (get_available_browser (example_world 0 (Inr 100)) (example_scraper True 1)))
       = [0, 1, 2, 3, 4, 5]
   \<and> create_stealth_browser (example_world 0 (Inl Exception)) (example_scraper True 1) = None
   \<and> get_available_browser (example_world 0 (Inl Exception)) (example_scraper True 1)
       = (example_scraper True 1, None)"
proof -
  define W where "W = example_world 0 (Inr 100)"
  define W' where "W' = example_world 0 (Inl Exception)"
  define S where "S = example_scraper"
  have busy: "\<forall>r \<in> set (browser_pool (S True 1)). in_use (store (S True 1) r)"
    by (simp add: S_def example_scraper_def)
  have first: "find (\<lambda>r. \<not> in_use (store (S False 1) r)) (browser_pool (S False 1)) = Some 0"
    by (simp add: S_def example_scraper_def)
  have ok: "create_stealth_browser W (S True 1) = Some 100"
    by (simp add: W_def S_def example_scraper_defs)
  have ko: "create_stealth_browser W' (S True 1) = None"
    by (simp add: W'_def S_def example_scraper_defs)
  have vals: "store (S False 1) 0 = \<lparr>browser = 0, in_use = False, created_at = 0, session_count = 1\<rparr>"
      "browser_pool (S True 1) = [0, 1, 2, 3, 4]" "next_ref (S True 1) = 5"
    by (simp_all add: S_def example_scraper_def)
  from get_available_browser_cases [where sc = "S False 1" and w = W and r = 0 and b = 0] first vals
  have c1: "get_available_browser W (S False 1)
       = ((S False 1)
            \<lparr>store := (store (S False 1))
                (0 := \<lparr>browser = 0, in_use = True, created_at = 0, session_count = 2\<rparr>)\<rparr>, Some 0)"
    by simp
  from get_available_browser_cases [where sc = "S True 1" and w = W and r = 0 and b = 100] busy ok vals
  have c2: "snd (get_available_browser W (S True 1)) = Some 5"
      "browser_pool (fst (get_available_browser W (S True 1))) = [0, 1, 2, 3, 4, 5]"
    by simp_all
  from get_available_browser_cases [where sc = "S True 1" and w = W' and r = 0 and b = 0] busy ko
  have c3: "get_available_browser W' (S True 1) = (S True 1, None)"
    by simp
  from c1 c2 c3 ok ko vals(1) busy show ?thesis
    unfolding W_def W'_def S_def by (simp add: list_all_iff)
qed

text \<open>
  Claim C3 as stated fails: with five browsers in the pool, all in use, and
  \<^verbatim>\<open>max_concurrent_sessions = 5\<close>, the call creates a sixth.
\<close>

theorem pool_grows_past_max_counterexample:
  "max_concurrent_sessions (scraper_config (example_scraper True 1)) = 5
   \<and> length (browser_pool (example_scraper True 1)) = 5
   \<and> snd (get_available_browser (example_world 0 (Inr 100)) (example_scraper True 1)) = Some 5
   \<and> length (browser_pool (fst (get_available_browser (example_world 0 (Inr 100)) (example_scraper True 1)))) = 6"
  by (simp add: example_scraper_defs)

lemma find_the_one:
  "r \<in> set xs \<Longrightarrow> \<forall>a \<in> set xs. P a \<longleftrightarrow> a = r \<Longrightarrow> find P xs = Some r"
  by (induction xs) auto

text \<open>
  Claim C8, as amended. For an entry of a pool whose browsers are pairwise distinct,
  \<^verbatim>\<open>release_browser\<close> marks the entry free and creates no browser itself. When
  the session count is above 50 and \<^verbatim>\<open>quit\<close> of the browser does not raise, the
  entry is removed from the pool and, if an event loop is running, the creation of a
  replacement is handed to it as a task. In every other case (a count of at most 50,
  or a \<^verbatim>\<open>quit\<close> that raises) pool and tasks are unchanged. The task, when it
  runs, appends a free entry with a session count of 0 if a browser could be
  created, and changes nothing if not.
\<close>

theorem release_browser_retires:
  assumes "r \<in> set (browser_pool sc)"
      and "distinct (map (\<lambda>a. browser (store sc a)) (browser_pool sc))"
  shows "\<not> in_use (store (release_browser w sc r) r)
     \<and> next_ref (release_browser w sc r) = next_ref sc
     \<and> (if session_count (store sc r) > 50 \<and> quit w (browser (store sc r)) = None
        then browser_pool (release_browser w sc r) = remove1 r (browser_pool sc)
           \<and> r \<notin> set (browser_pool (release_browser w sc r))
           \<and> tasks (release_browser w sc r)
               = (if event_loop_running w then tasks sc @ [CreateReplacementBrowser] else tasks sc)
        else browser_pool (release_browser w sc r) = browser_pool sc
           \<and> tasks (release_browser w sc r) = tasks sc)
     \<and> (case create_stealth_browser w' sc' of
          Some b \<Rightarrow>
            browser_pool (create_replacement_browser w' sc') = browser_pool sc' @ [next_ref sc']
            \<and> store (create_replacement_browser w' sc') (next_ref sc')
                = \<lparr>browser = b, in_use = False, created_at = now w', session_count = 0\<rparr>
        | None \<Rightarrow> create_replacement_browser w' sc' = sc')"
proof -
  define st1 where "st1 = (store sc)(r := (store sc r)\<lparr>in_use := False\<rparr>)"
  have d: "distinct (browser_pool sc)"
    using assms(2) by (simp add: distinct_map)
  have inj: "inj_on (\<lambda>a. browser (store sc a)) (set (browser_pool sc))"
    using assms(2) by (simp add: distinct_map)
  have "\<forall>a \<in> set (browser_pool sc). (st1 a = st1 r) \<longleftrightarrow> a = r"
  proof
    fix a assume a: "a \<in> set (browser_pool sc)"
    show "(st1 a = st1 r) \<longleftrightarrow> a = r"
    proof
      assume eq: "st1 a = st1 r"
      show "a = r"
      proof (rule ccontr)
        assume ne: "a \<noteq> r"
        with eq have "browser (store sc a) = browser (store sc r)"
          by (simp add: st1_def)
        with inj a assms(1) have "a = r" by (auto dest: inj_onD)
        with ne show False by simp
      qed
    qed simp
  qed
  with assms(1) have f: "find (\<lambda>a. st1 a = st1 r) (browser_pool sc) = Some r"
    by (intro find_the_one) simp_all
  have rel: "\<not> in_use (store (release_browser w sc r) r)
     \<and> next_ref (release_browser w sc r) = next_ref sc
     \<and> (if session_count (store sc r) > 50 \<and> quit w (browser (store sc r)) = None
        then browser_pool (release_browser w sc r) = remove1 r (browser_pool sc)
           \<and> r \<notin> set (browser_pool (release_browser w sc r))
           \<and> tasks (release_browser w sc r)
               = (if event_loop_running w then tasks sc @ [CreateReplacementBrowser] else tasks sc)
        else browser_pool (release_browser w sc r) = browser_pool sc
           \<and> tasks (release_browser w sc r) = tasks sc)"
  proof (cases "quit w (browser (store sc r))")
    case None
    with f d show ?thesis
      by (simp add: release_browser_def Let_def st1_def [symmetric])
         (simp add: st1_def)
  next
    case (Some err)
    then show ?thesis
      by (simp add: release_browser_def Let_def)
  qed
  have rep: "case create_stealth_browser w' sc' of
          Some b \<Rightarrow>
            browser_pool (create_replacement_browser w' sc') = browser_pool sc' @ [next_ref sc']
            \<and> store (create_replacement_browser w' sc') (next_ref sc')
                = \<lparr>browser = b, in_use = False, created_at = now w', session_count = 0\<rparr>
        | None \<Rightarrow> create_replacement_browser w' sc' = sc'"
    by (simp add: create_replacement_browser_def split: option.split)
  from rel rep show ?thesis by blast
qed

text \<open>
  An entry with 51 sessions is retired and its replacement, once the task has run,
  is entry 5; an entry with 50 sessions is kept.
\<close>

theorem release_browser_retires_witness:
  "2 \<in> set (browser_pool (example_scraper True 51))
   \<and> distinct (map (\<lambda>a. browser (store (example_scraper True 51) a)) (browser_pool (example_scraper True 51)))
   \<and> quit (example_world 0 (Inr 100)) (browser (store (example_scraper True 51) 2)) = None
   \<and> session_count (store (example_scraper True 51) 2) > 50
   \<and> \<not> in_use (store (release_browser (example_world 0 (Inr 100)) (example_scraper True 51) 2) 2)
   \<and> browser_pool (release_browser (example_world 0 (Inr 100)) (example_scraper True 51) 2) = [0, 1, 3, 4]
   \<and> tasks (release_browser (example_world 0 (Inr 100)) (example_scraper True 51) 2) = [CreateReplacementBrowser]
   \<and> browser_pool (create_replacement_browser (example_world 0 (Inr 100))
        (release_browser (example_world 0 (Inr 100)) (example_scraper True 51) 2)) = [0, 1, 3, 4, 5]
   \<and> store (create_replacement_browser (example_world 0 (Inr 100))
        (release_browser (example_world 0 (Inr 100)) (example_scraper True 51) 2)) 5
       = \<lparr>browser = 100, in_use = False, created_at = 7, session_count = 0\<rparr>
   \<and> browser_pool (release_browser (example_world 0 (Inr 100)) (example_scraper True 50) 2) = [0, 1, 2, 3, 4]
   \<and> tasks (release_browser (example_world 0 (Inr 100)) (example_scraper True 50) 2) = []"
proof -
  define W where "W = example_world 0 (Inr 100)"
  define S where "S = example_scraper True"
  have h1: "2 \<in> set (browser_pool (S n))" for n
    by (simp add: S_def example_scraper_def)
  have h2: "distinct (map (\<lambda>a. browser (store (S n) a)) (browser_pool (S n)))" for n
    by (simp add: S_def example_scraper_def)
  have h3: "quit W (browser (store (S n) 2)) = None" for n
    by (simp add: W_def example_world_def)
  have ev: "event_loop_running W" "now W = 7"
    by (simp_all add: W_def example_world_def)
  have sz: "session_count (store (S 51) 2) > 50" "\<not> session_count (store (S 50) 2) > 50"
    by (simp_all add: S_def example_scraper_def)
  have pl: "remove1 2 (browser_pool (S 51)) = [0, 1, 3, 4]" "tasks (S 51) = []"
           "browser_pool (S 50) = [0, 1, 2, 3, 4]" "tasks (S 50) = []" "next_ref (S 51) = 5"
    by (simp_all add: S_def example_scraper_def)
  have cr: "create_stealth_browser W (release_browser W (S 51) 2) = Some 100"
    by (simp add: W_def S_def example_scraper_defs)
  note t51 = release_browser_retires
         [OF h1 [of 51] h2 [of 51], where w = W and w' = W and sc' = "release_browser W (S 51) 2"]
  note t50 = release_browser_retires
         [OF h1 [of 50] h2 [of 50], where w = W and w' = W and sc' = "release_browser W (S 51) 2"]
  from t51 sz(1) h3 [of 51] ev pl
  have a: "\<not> in_use (store (release_browser W (S 51) 2) 2)"
          "next_ref (release_browser W (S 51) 2) = 5"
          "browser_pool (release_browser W (S 51) 2) = [0, 1, 3, 4]"
          "tasks (release_browser W (S 51) 2) = [CreateReplacementBrowser]"
    by simp_all
  from t51 cr a ev
  have b: "browser_pool (create_replacement_browser W (release_browser W (S 51) 2)) = [0, 1, 3, 4, 5]"
          "store (create_replacement_browser W (release_browser W (S 51) 2)) 5
             = \<lparr>browser = 100, in_use = False, created_at = 7, session_count = 0\<rparr>"
    by simp_all
  from t50 sz(2) pl
  have c: "browser_pool (release_browser W (S 50) 2) = [0, 1, 2, 3, 4]"
          "tasks (release_browser W (S 50) 2) = []"
    by simp_all
  from h1 [of 51] h2 [of 51] h3 [of 51] sz(1) a b c show ?thesis
    unfolding W_def S_def by simp
qed

text \<open>
  Claim C8 as stated fails. When \<^verbatim>\<open>quit\<close> raises, an entry with 51 sessions stays
  in the pool, no replacement is scheduled, and the next call of
  \<^verbatim>\<open>get_available_browser\<close> leases it again. When no event loop is running, the
  entry is removed and no replacement is scheduled.
\<close>

theorem retire_skipped_counterexample:
  "session_count (store (example_scraper True 51) 2) > 50
   \<and> browser_pool (release_browser example_world_quit_fails (example_scraper True 51) 2) = [0, 1, 2, 3, 4]
   \<and> tasks (release_browser example_world_quit_fails (example_scraper True 51) 2) = []
   \<and> snd (get_available_browser example_world_quit_fails
        (release_browser example_world_quit_fails (example_scraper True 51) 2)) = Some 2
   \<and> browser_pool (release_browser example_world_no_loop (example_scraper True 51) 2) = [0, 1, 3, 4]
   \<and> tasks (release_browser example_world_no_loop (example_scraper True 51) 2) = []"
  by (simp add: example_world_quit_fails_def example_world_no_loop_def example_scraper_defs)

subsection \<open>Proxy selection\<close>

text \<open>
  Claim C9, as amended. The proxy that \<^verbatim>\<open>create_stealth_browser\<close> selects is in
  \<^verbatim>\<open>proxy_pool\<close> and active: it is the one that the random draw picks among the
  active proxies. Neither \<^verbatim>\<open>concurrent_sessions\<close> nor the configuration (the
  rotation strategy, the session limit) is read.
\<close>

theorem proxy_selection:
  assumes "stealth_options w sc = Inr options" and "opt_proxy options = Some p"
  shows "is_active p \<and> p \<in> set (proxy_pool sc)
     \<and> p = filter is_active (proxy_pool sc) ! (proxy_draw w mod length (filter is_active (proxy_pool sc)))
     \<and> stealth_options w (sc\<lparr>scraper_config := cfg\<rparr>) = Inr options"
proof -
  from assms have ne: "filter is_active (proxy_pool sc) \<noteq> []"
    and p: "p = filter is_active (proxy_pool sc) ! (proxy_draw w mod length (filter is_active (proxy_pool sc)))"
    by (auto simp add: stealth_options_def random_choice_def split: sum.splits if_splits)
  from ne have "proxy_draw w mod length (filter is_active (proxy_pool sc)) < length (filter is_active (proxy_pool sc))"
    by simp
  then have "p \<in> set (filter is_active (proxy_pool sc))"
    unfolding p by (rule nth_mem)
  moreover have "stealth_options w (sc\<lparr>scraper_config := cfg\<rparr>) = stealth_options w sc"
    by (simp add: stealth_options_def split: sum.split)
  ultimately show ?thesis
    using p assms(1) by simp
qed

text \<open>A draw of 1 selects the second active proxy, under any configuration.\<close>

theorem proxy_selection_witness:
  "stealth_options (example_world 1 (Inr 100)) (example_scraper True 1)
     = Inr \<lparr>opt_user_agent = ''Mozilla/5.0'',
            opt_proxy = Some \<lparr>proxy_url = ''http://residential2.proxy.com:8080'', is_active = True,
                               concurrent_sessions = 0\<rparr>\<rparr>
   \<and> is_active \<lparr>proxy_url = ''http://residential2.proxy.com:8080'', is_active = True, concurrent_sessions = 0\<rparr>
   \<and> stealth_options (example_world 1 (Inr 100))
        ((example_scraper True 1)\<lparr>scraper_config := \<lparr>max_concurrent_sessions = 1, rotation_strategy = ''weighted''\<rparr>\<rparr>)
     = Inr \<lparr>opt_user_agent = ''Mozilla/5.0'',
            opt_proxy = Some \<lparr>proxy_url = ''http://residential2.proxy.com:8080'', is_active = True,
                               concurrent_sessions = 0\<rparr>\<rparr>"
proof -
  have h1: "stealth_options (example_world 1 (Inr 100)) (example_scraper True 1)
     = Inr \<lparr>opt_user_agent = ''Mozilla/5.0'',
            opt_proxy = Some \<lparr>proxy_url = ''http://residential2.proxy.com:8080'', is_active = True,
                               concurrent_sessions = 0\<rparr>\<rparr>"
    by (simp add: example_scraper_defs)
  have h2: "opt_proxy \<lparr>opt_user_agent = ''Mozilla/5.0'',
            opt_proxy = Some \<lparr>proxy_url = ''http://residential2.proxy.com:8080'', is_active = True,
                               concurrent_sessions = 0\<rparr>\<rparr>
      = Some \<lparr>proxy_url = ''http://residential2.proxy.com:8080'', is_active = True, concurrent_sessions = 0\<rparr>"
    by simp
  from proxy_selection [OF h1 h2, of "\<lparr>max_concurrent_sessions = 1, rotation_strategy = ''weighted''\<rparr>"] h1
  show ?thesis by (simp add: example_scraper_defs)
qed

text \<open>
  Claim C9 as stated fails: under the default configuration (round robin, at most
  five concurrent sessions) a draw of 0 selects the proxy that already has five
  concurrent sessions, though an active proxy with none is in the pool.
\<close>

theorem proxy_at_cap_counterexample:
  "rotation_strategy (scraper_config (example_scraper True 1)) = ''round_robin''
   \<and> max_concurrent_sessions (scraper_config (example_scraper True 1)) = 5
   \<and> stealth_options (example_world 0 (Inr 100)) (example_scraper True 1)
     = Inr \<lparr>opt_user_agent = ''Mozilla/5.0'',
            opt_proxy = Some \<lparr>proxy_url = ''http://residential1.proxy.com:8080'', is_active = True,
                               concurrent_sessions = 5\<rparr>\<rparr>"
  by (simp add: example_scraper_defs)

end
